theory Spec2Isabelle
  imports Main "HOL-Library.Word"
begin

unbundle bit_operations_syntax

section \<open>Wallet policy parser of src/common/wallet.c\<close>

text \<open>
  The theory embeds the parsers of \<^verbatim>\<open>src/common/wallet.c\<close>: the wallet header decoder
  \<^verbatim>\<open>read_policy_map_wallet\<close>, the key-information parser \<^verbatim>\<open>parse_policy_map_key_info\<close>
  and the recursive-descent script parser \<^verbatim>\<open>parse_script\<close> with its entry point
  \<^verbatim>\<open>parse_policy_map\<close>.

  Data model.
  \<^item> \<^verbatim>\<open>size_t\<close> is a 32-bit word. The source itself passes a \<^verbatim>\<open>uint32_t *\<close> where
    \<^verbatim>\<open>parse_unsigned_decimal\<close> expects a \<^verbatim>\<open>size_t *\<close> (in \<^verbatim>\<open>buffer_read_derivation_step\<close>
    and for the \<^verbatim>\<open>n\<close> of \<^verbatim>\<open>older\<close>/\<^verbatim>\<open>after\<close>), which is the 32-bit target of the program.
  \<^item> The input \<^verbatim>\<open>buffer_t\<close> is the list of its unread bytes: a read drops a prefix.
  \<^item> The output \<^verbatim>\<open>buffer_t\<close> (the arena in which the nodes are allocated) is the record
    \<open>arena\<close>; the nodes written into it are returned as a tree of type \<open>policy_node\<close>,
    a child pointer of the source being the child itself.
  \<^item> An error return (\<^verbatim>\<open>return -1\<close>, \<^verbatim>\<open>WITH_ERROR(-1, msg)\<close>) is the value \<open>Err msg\<close>,
    with the empty message for a plain \<^verbatim>\<open>return -1\<close>; the state reached at that point is
    returned with it.
\<close>

subsection \<open>Results and parser state\<close>

type_synonym size_t = "32 word"

datatype 'a res = Ok 'a | Err string | NoFuel

fun is_Err :: "'a res \<Rightarrow> bool" where
  "is_Err (Err _) = True"
| "is_Err _ = False"

subsection \<open>Byte cursor (buffer.h)\<close>

text \<open>
  Modelled from the spec: the byte-buffer primitives of \<^verbatim>\<open>buffer.c\<close> are not part of the
  source under study. Section 4.1 of the specification gives them: peek, peek at an offset,
  read one byte, read n bytes, read a Bitcoin-style varint, can-read and relative seek. A
  read that fails is taken to leave the cursor where it was; every caller returns an error
  at once in that case.
\<close>

definition buffer_can_read :: "'a list \<Rightarrow> nat \<Rightarrow> bool" where
  "buffer_can_read buffer n = (n \<le> length buffer)"

definition buffer_peek :: "'a list \<Rightarrow> 'a option" where
  "buffer_peek buffer = (case buffer of [] \<Rightarrow> None | c # _ \<Rightarrow> Some c)"

definition buffer_peek_n :: "'a list \<Rightarrow> nat \<Rightarrow> 'a option" where
  "buffer_peek_n buffer n = (if n < length buffer then Some (buffer ! n) else None)"

definition buffer_seek_cur :: "'a list \<Rightarrow> nat \<Rightarrow> 'a list" where
  "buffer_seek_cur buffer n = (if n \<le> length buffer then drop n buffer else buffer)"

definition buffer_read_u8 :: "'a list \<Rightarrow> 'a option \<times> 'a list" where
  "buffer_read_u8 buffer = (case buffer of [] \<Rightarrow> (None, []) | c # cs \<Rightarrow> (Some c, cs))"

definition buffer_read_bytes :: "'a list \<Rightarrow> nat \<Rightarrow> 'a list option \<times> 'a list" where
  "buffer_read_bytes buffer n =
     (if n \<le> length buffer then (Some (take n buffer), drop n buffer) else (None, buffer))"

text \<open>Little-endian value of a byte string.\<close>

fun read_le :: "8 word list \<Rightarrow> nat" where
  "read_le [] = 0"
| "read_le (b # bs) = unat b + 256 * read_le bs"

definition buffer_read_varint :: "8 word list \<Rightarrow> 64 word option \<times> 8 word list" where
  "buffer_read_varint buffer =
     (case buffer of
        [] \<Rightarrow> (None, buffer)
      | p # rest \<Rightarrow>
          (let n = (if p = 0xFD then 2 else if p = 0xFE then 4 else if p = 0xFF then 8 else 0)
           in if p < 0xFD then (Some (ucast p), rest)
              else if n \<le> length rest then (Some (of_nat (read_le (take n rest))), drop n rest)
              else (None, buffer)))"

subsection \<open>Lexical primitives\<close>

definition is_digit :: "char \<Rightarrow> bool" where
  "is_digit c = ((of_char (CHR ''0'') :: nat) \<le> of_char c \<and> (of_char c :: nat) \<le> of_char (CHR ''9''))"

definition is_alpha :: "char \<Rightarrow> bool" where
  "is_alpha c =
     (((of_char (CHR ''a'') :: nat) \<le> of_char c \<and> (of_char c :: nat) \<le> of_char (CHR ''z'')) \<or>
      ((of_char (CHR ''A'') :: nat) \<le> of_char c \<and> (of_char c :: nat) \<le> of_char (CHR ''Z'')))"

definition is_alphanumeric :: "char \<Rightarrow> bool" where
  "is_alphanumeric c = (is_alpha c \<or> is_digit c)"

definition is_lowercase_hex :: "char \<Rightarrow> bool" where
  "is_lowercase_hex c =
     (is_digit c \<or> ((of_char (CHR ''a'') :: nat) \<le> of_char c \<and> (of_char c :: nat) \<le> of_char (CHR ''f'')))"

definition lowercase_hex_to_int :: "char \<Rightarrow> 8 word" where
  "lowercase_hex_to_int c =
     (if is_digit c then of_char c - of_char (CHR ''0'') else of_char c - of_char (CHR ''a'') + 10)"

definition consume_character :: "char list \<Rightarrow> char \<Rightarrow> bool \<times> char list" where
  "consume_character in_buf expected =
     (case buffer_peek in_buf of
        None \<Rightarrow> (False, in_buf)
      | Some c \<Rightarrow> if c \<noteq> expected then (False, in_buf) else (True, buffer_seek_cur in_buf 1))"

text \<open>\<^verbatim>\<open>read_token\<close>: at most \<open>out_len\<close> characters of \<^verbatim>\<open>[a-zA-Z0-9_]\<close>.\<close>

fun read_token :: "char list \<Rightarrow> nat \<Rightarrow> string \<times> char list" where
  "read_token [] out_len = ([], [])"
| "read_token (c # cs) out_len =
     (if 0 < out_len \<and> (is_alphanumeric c \<or> c = CHR ''_'')
      then (case read_token cs (out_len - 1) of (word, rest) \<Rightarrow> (c # word, rest))
      else ([], c # cs))"

datatype PolicyNodeType =
    TOKEN_SH | TOKEN_WSH | TOKEN_PKH | TOKEN_WPKH | TOKEN_MULTI | TOKEN_SORTEDMULTI | TOKEN_TR
  | TOKEN_0 | TOKEN_1 | TOKEN_PK | TOKEN_PK_K | TOKEN_PK_H | TOKEN_OLDER | TOKEN_AFTER
  | TOKEN_SHA256 | TOKEN_HASH256 | TOKEN_RIPEMD160 | TOKEN_HASH160
  | TOKEN_ANDOR | TOKEN_AND_V | TOKEN_AND_B | TOKEN_AND_N
  | TOKEN_OR_B | TOKEN_OR_C | TOKEN_OR_D | TOKEN_OR_I | TOKEN_THRESH
  | TOKEN_A | TOKEN_S | TOKEN_C | TOKEN_T | TOKEN_D | TOKEN_V | TOKEN_J | TOKEN_N | TOKEN_L
  | TOKEN_U | TOKEN_INVALID

definition KNOWN_TOKENS :: "(PolicyNodeType \<times> string) list" where
  "KNOWN_TOKENS =
     [(TOKEN_SH, ''sh''), (TOKEN_WSH, ''wsh''), (TOKEN_PKH, ''pkh''), (TOKEN_WPKH, ''wpkh''),
      (TOKEN_MULTI, ''multi''), (TOKEN_SORTEDMULTI, ''sortedmulti''), (TOKEN_TR, ''tr''),
      (TOKEN_0, ''0''), (TOKEN_1, ''1''), (TOKEN_PK, ''pk''), (TOKEN_PK_K, ''pk_k''),
      (TOKEN_PK_H, ''pk_h''), (TOKEN_OLDER, ''older''), (TOKEN_AFTER, ''after''),
      (TOKEN_SHA256, ''sha256''), (TOKEN_HASH256, ''hash256''),
      (TOKEN_RIPEMD160, ''ripemd160''), (TOKEN_HASH160, ''hash160''),
      (TOKEN_ANDOR, ''andor''), (TOKEN_AND_V, ''and_v''), (TOKEN_AND_B, ''and_b''),
      (TOKEN_AND_N, ''and_n''), (TOKEN_OR_B, ''or_b''), (TOKEN_OR_C, ''or_c''),
      (TOKEN_OR_D, ''or_d''), (TOKEN_OR_I, ''or_i''), (TOKEN_THRESH, ''thresh'')]"

definition MAX_TOKEN_LENGTH :: nat where
  "MAX_TOKEN_LENGTH = length ''sortedmulti''"

text \<open>
  The scan of \<^verbatim>\<open>parse_token\<close>: the first entry whose name agrees with the word under
  \<^verbatim>\<open>strncmp(name, word, MAX_TOKEN_LENGTH)\<close>. Neither string holds a NUL byte, so the
  comparison is equality of the first \<open>MAX_TOKEN_LENGTH\<close> characters.
\<close>

fun lookup_token :: "(PolicyNodeType \<times> string) list \<Rightarrow> string \<Rightarrow> PolicyNodeType" where
  "lookup_token [] word = TOKEN_INVALID"
| "lookup_token ((t, name) # ts) word =
     (if take MAX_TOKEN_LENGTH name = take MAX_TOKEN_LENGTH word then t else lookup_token ts word)"

definition parse_token :: "char list \<Rightarrow> PolicyNodeType \<times> char list" where
  "parse_token buffer =
     (case read_token buffer MAX_TOKEN_LENGTH of (word, rest) \<Rightarrow> (lookup_token KNOWN_TOKENS word, rest))"

text \<open>
  The loop of \<^verbatim>\<open>parse_unsigned_decimal\<close>. \<open>10 * result + next_digit\<close> is computed in
  \<^verbatim>\<open>size_t\<close> and wraps; \<open>None\<close> is the \<^verbatim>\<open>return -1\<close> inside the loop, which leaves the
  offending digit unread. The loop is written for any width of \<^verbatim>\<open>size_t\<close>;
  \<^verbatim>\<open>parse_unsigned_decimal\<close> runs it at the 32 bits of the target.
\<close>

fun parse_unsigned_decimal_loop ::
  "char list \<Rightarrow> 'a::len word \<Rightarrow> nat \<Rightarrow> ('a word \<times> nat) option \<times> char list" where
  "parse_unsigned_decimal_loop [] result digits_read = (Some (result, digits_read), [])"
| "parse_unsigned_decimal_loop (c # cs) result digits_read =
     (if is_digit c then
        (let digits_read' = digits_read + 1;
             next_digit = of_nat (of_char c - of_char (CHR ''0''))
         in if digits_read' = 2 \<and> result = 0 then (None, c # cs)
            else if 10 * result + next_digit < result then (None, c # cs)
            else parse_unsigned_decimal_loop cs (10 * result + next_digit) digits_read')
      else (Some (result, digits_read), c # cs))"

definition parse_unsigned_decimal :: "char list \<Rightarrow> size_t res \<times> char list" where
  "parse_unsigned_decimal buffer =
     (case parse_unsigned_decimal_loop buffer 0 0 of
        (None, rest) \<Rightarrow> (Err [], rest)
      | (Some (result, digits_read), rest) \<Rightarrow>
          if digits_read = 0 then (Err [], rest) else (Ok result, rest))"


subsection \<open>Wallet header: \<^verbatim>\<open>read_policy_map_wallet\<close>\<close>

text \<open>
  Modelled from the spec: the constants of \<^verbatim>\<open>wallet.h\<close> and \<^verbatim>\<open>bip32.h\<close>, which are not
  part of the source under study. The specification gives the policy-map discriminant 2,
  a name of at most 64 bytes, a policy of at most 74 bytes, at most 16 cosigners, at most
  8 derivation steps (\<^verbatim>\<open>MAX_BIP32_PATH_STEPS\<close>) and the hardened bit \<^verbatim>\<open>0x80000000\<close>.
\<close>

definition WALLET_TYPE_POLICY_MAP :: "8 word" where
  "WALLET_TYPE_POLICY_MAP = 2"

definition MAX_WALLET_NAME_LENGTH :: "8 word" where
  "MAX_WALLET_NAME_LENGTH = 64"

definition MAX_POLICY_MAP_STR_LENGTH :: "16 word" where
  "MAX_POLICY_MAP_STR_LENGTH = 74"

definition MAX_POLICY_MAP_COSIGNERS :: nat where
  "MAX_POLICY_MAP_COSIGNERS = 16"

definition MAX_BIP32_PATH_STEPS :: nat where
  "MAX_BIP32_PATH_STEPS = 8"

definition BIP32_FIRST_HARDENED_CHILD :: "32 word" where
  "BIP32_FIRST_HARDENED_CHILD = 0x80000000"

record policy_map_wallet_header =
  h_type :: "8 word"
  h_name_len :: "8 word"
  h_name :: "8 word list"
  h_policy_map_len :: "16 word"
  h_policy_map :: "8 word list"
  h_n_keys :: "16 word"
  h_keys_info_merkle_root :: "8 word list"

text \<open>
  The result is the return code (0, or the negative code of the failing stage), the header
  on success, and the unread rest of the buffer. \<^verbatim>\<open>(uint16_t) policy_map_len\<close> keeps the
  low 16 bits of the varint.
\<close>

definition read_policy_map_wallet ::
  "8 word list \<Rightarrow> int \<times> policy_map_wallet_header option \<times> 8 word list" where
  "read_policy_map_wallet buffer =
     (case buffer_read_u8 buffer of
        (None, b1) \<Rightarrow> (- 1, None, b1)
      | (Some type, b1) \<Rightarrow>
     if type \<noteq> WALLET_TYPE_POLICY_MAP then (- 2, None, b1) else
     (case buffer_read_u8 b1 of
        (None, b2) \<Rightarrow> (- 3, None, b2)
      | (Some name_len, b2) \<Rightarrow>
     if name_len > MAX_WALLET_NAME_LENGTH then (- 4, None, b2) else
     (case buffer_read_bytes b2 (unat name_len) of
        (None, b3) \<Rightarrow> (- 5, None, b3)
      | (Some name, b3) \<Rightarrow>
     (case buffer_read_varint b3 of
        (None, b4) \<Rightarrow> (- 6, None, b4)
      | (Some policy_map_len64, b4) \<Rightarrow>
     (let policy_map_len = (ucast policy_map_len64 :: 16 word) in
     if policy_map_len > MAX_POLICY_MAP_STR_LENGTH then (- 7, None, b4) else
     (case buffer_read_bytes b4 (unat policy_map_len) of
        (None, b5) \<Rightarrow> (- 8, None, b5)
      | (Some policy_map, b5) \<Rightarrow>
     (case buffer_read_varint b5 of
        (None, b6) \<Rightarrow> (- 9, None, b6)
      | (Some n_keys, b6) \<Rightarrow>
     if n_keys > 252 then (- 9, None, b6) else
     (case buffer_read_bytes b6 32 of
        (None, b7) \<Rightarrow> (- 10, None, b7)
      | (Some root, b7) \<Rightarrow>
          (0,
           Some \<lparr>h_type = type, h_name_len = name_len, h_name = name,
                 h_policy_map_len = policy_map_len, h_policy_map = policy_map,
                 h_n_keys = ucast n_keys, h_keys_info_merkle_root = root\<rparr>,
           b7)))))))))"

subsection \<open>Key information: \<^verbatim>\<open>parse_policy_map_key_info\<close>\<close>

text \<open>
  \<^verbatim>\<open>buffer_read_derivation_step\<close>: a decimal below the hardened bit, then an optional
  apostrophe that sets the bit.
\<close>

definition buffer_read_derivation_step :: "char list \<Rightarrow> 32 word option \<times> char list" where
  "buffer_read_derivation_step buffer =
     (case parse_unsigned_decimal buffer of
        (Ok der_step, b1) \<Rightarrow>
          if der_step \<ge> BIP32_FIRST_HARDENED_CHILD then (None, b1)
          else (case consume_character b1 (CHR 0x27) of
                  (True, b2) \<Rightarrow> (Some (der_step OR BIP32_FIRST_HARDENED_CHILD), b2)
                | (False, b2) \<Rightarrow> (Some der_step, b2))
      | (_, b1) \<Rightarrow> (None, b1))"

text \<open>
  Modelled from the spec: the structure \<^verbatim>\<open>policy_map_key_info_t\<close> of \<^verbatim>\<open>wallet.h\<close>, which is
  not part of the source under study. The specification gives its fields;
  \<^verbatim>\<open>master_key_derivation\<close> is an array of \<^verbatim>\<open>MAX_BIP32_PATH_STEPS\<close> entries and
  \<^verbatim>\<open>master_key_fingerprint\<close> one of 4 bytes. \<open>key_info_zero\<close> is the structure after
  \<^verbatim>\<open>memset(out, 0, sizeof(policy_map_key_info_t))\<close>.
\<close>

record policy_map_key_info =
  master_key_derivation :: "32 word list"
  master_key_derivation_len :: nat
  master_key_fingerprint :: "8 word list"
  has_key_origin :: bool
  has_wildcard :: bool
  ext_pubkey :: string

definition key_info_zero :: policy_map_key_info where
  "key_info_zero =
     \<lparr>master_key_derivation = replicate MAX_BIP32_PATH_STEPS 0, master_key_derivation_len = 0,
      master_key_fingerprint = replicate 4 0, has_key_origin = False, has_wildcard = False,
      ext_pubkey = []\<rparr>"

text \<open>
  The iterations that read the fingerprint, two hexadecimal digits each; the first argument
  lists the values of \<open>i\<close> still to come. \<open>False\<close> is the \<^verbatim>\<open>return -1\<close> of the loop.
\<close>

fun read_fingerprint ::
  "nat list \<Rightarrow> char list \<Rightarrow> policy_map_key_info \<Rightarrow> bool \<times> policy_map_key_info \<times> char list" where
  "read_fingerprint [] buffer out = (True, out, buffer)"
| "read_fingerprint (i # indexes) buffer out =
     (case buffer_read_bytes buffer 2 of
        (Some [n0, n1], b1) \<Rightarrow>
          if \<not> is_lowercase_hex n0 \<or> \<not> is_lowercase_hex n1 then (False, out, b1)
          else read_fingerprint indexes b1
                 (out\<lparr>master_key_fingerprint :=
                        (master_key_fingerprint out)
                          [i := 16 * lowercase_hex_to_int n0 + lowercase_hex_to_int n1]\<rparr>)
      | (_, b1) \<Rightarrow> (False, out, b1))"

text \<open>
  The store \<^verbatim>\<open>master_key_derivation[master_key_derivation_len] = step\<close> that
  \<^verbatim>\<open>buffer_read_derivation_step\<close> makes through its pointer argument. Within the array it
  updates the entry. A store at an index from \<^verbatim>\<open>MAX_BIP32_PATH_STEPS\<close> on is past the end
  of the array: what it overwrites depends on the layout of the structure, which the source
  under study does not hold, so the effect of such a store on the structure is the
  parameter \<open>store_past_end\<close>, applied to the index and the value.
\<close>

type_synonym past_end_store = "nat \<Rightarrow> 32 word \<Rightarrow> policy_map_key_info \<Rightarrow> policy_map_key_info"

definition store_derivation_step ::
  "past_end_store \<Rightarrow> 32 word \<Rightarrow> policy_map_key_info \<Rightarrow> policy_map_key_info" where
  "store_derivation_step store_past_end step out =
     (let i = master_key_derivation_len out
      in if i < MAX_BIP32_PATH_STEPS
         then out\<lparr>master_key_derivation := (master_key_derivation out)[i := step]\<rparr>
         else store_past_end i step out)"

text \<open>
  The loop over the derivation steps; \<open>False\<close> is its \<^verbatim>\<open>return -1\<close>. The guard of the
  source is \<^verbatim>\<open>master_key_derivation_len > MAX_BIP32_PATH_STEPS\<close>, tested before a step is
  read.
\<close>

function read_derivation_steps ::
  "past_end_store \<Rightarrow> char list \<Rightarrow> policy_map_key_info \<Rightarrow>
   bool \<times> policy_map_key_info \<times> char list" where
  "read_derivation_steps store_past_end buffer out =
     (case consume_character buffer (CHR ''/'') of
        (False, b1) \<Rightarrow> (True, out, b1)
      | (True, b1) \<Rightarrow>
          if master_key_derivation_len out > MAX_BIP32_PATH_STEPS then (False, out, b1)
          else (case buffer_read_derivation_step b1 of
                  (None, b2) \<Rightarrow> (False, out, b2)
                | (Some step, b2) \<Rightarrow>
                    (let out1 = store_derivation_step store_past_end step out;
                         out2 = out1\<lparr>master_key_derivation_len :=
                                       master_key_derivation_len out1 + 1\<rparr>
                     in read_derivation_steps store_past_end b2 out2)))"
  by pat_completeness auto
termination
proof (relation "measure (\<lambda>(st, b, out). length b)")
  show "wf (measure (\<lambda>(st, b, out). length b))" by simp
next
  fix store_past_end :: past_end_store and buffer :: "char list"
    and out out1 out2 :: policy_map_key_info and x b1 xa b2 step
  assume c: "(x, b1) = consume_character buffer (CHR ''/'')" and x: "x = True"
     and r: "(xa, b2) = buffer_read_derivation_step b1"
  have loop: "length (snd (parse_unsigned_decimal_loop b r d)) \<le> length b"
    for b d and r :: size_t
    by (induction b arbitrary: r d) (auto simp: Let_def intro: le_SucI)
  have dec: "length (snd (parse_unsigned_decimal b)) \<le> length b" for b
    using loop [of b 0 0]
    by (auto simp: parse_unsigned_decimal_def split: prod.splits option.splits)
  have con: "length (snd (consume_character b e)) \<le> length b" for b e
    by (auto simp: consume_character_def buffer_peek_def buffer_seek_cur_def
             split: option.splits list.splits)
  have "snd (buffer_read_derivation_step b1) = snd (parse_unsigned_decimal b1) \<or>
        snd (buffer_read_derivation_step b1) =
          snd (consume_character (snd (parse_unsigned_decimal b1)) (CHR 0x27))"
    by (auto simp: buffer_read_derivation_step_def split: prod.splits res.splits bool.splits)
  then have "length (snd (buffer_read_derivation_step b1)) \<le> length b1"
    using dec [of b1] con [of "snd (parse_unsigned_decimal b1)" "CHR 0x27"] by auto
  then have "length b2 \<le> length b1"
    using r by (metis snd_conv)
  moreover have "length b1 < length buffer"
    using c x
    by (auto simp: consume_character_def buffer_peek_def buffer_seek_cur_def
             split: option.splits list.splits if_splits)
  ultimately show "((store_past_end, b2, out2), (store_past_end, buffer, out))
                   \<in> measure (\<lambda>(st, b, out). length b)"
    by simp
qed

declare read_derivation_steps.simps [simp del]

text \<open>The loop that copies the extended public key, at most \<open>max_len\<close> alphanumerics.\<close>

fun read_ext_pubkey :: "char list \<Rightarrow> nat \<Rightarrow> string \<times> char list" where
  "read_ext_pubkey [] max_len = ([], [])"
| "read_ext_pubkey (c # cs) max_len =
     (if 0 < max_len \<and> is_alphanumeric c
      then (case read_ext_pubkey cs (max_len - 1) of (key, rest) \<Rightarrow> (c # key, rest))
      else ([], c # cs))"

text \<open>
  \<^verbatim>\<open>parse_policy_map_key_info\<close>. Beside \<open>store_past_end\<close> it has the parameter
  \<^verbatim>\<open>MAX_SERIALIZED_PUBKEY_LENGTH\<close>, a constant of a header that is not part of the source
  under study and that the specification does not give. The result is the return code, the
  \<^verbatim>\<open>out\<close> structure as the source has written it when it returns, and the unread rest of
  the buffer.
\<close>

definition parse_key_origin ::
  "past_end_store \<Rightarrow> char list \<Rightarrow> policy_map_key_info \<Rightarrow>
   int \<times> policy_map_key_info \<times> char list" where
  "parse_key_origin store_past_end buffer out =
     (case consume_character buffer (CHR ''['') of
        (False, b0) \<Rightarrow> (0, out, b0)
      | (True, b0) \<Rightarrow>
     (let out1 = out\<lparr>has_key_origin := True\<rparr> in
     if \<not> buffer_can_read b0 9 then (- 1, out1, b0) else
     (case read_fingerprint [0, 1, 2, 3] b0 out1 of
        (False, out2, b1) \<Rightarrow> (- 1, out2, b1)
      | (True, out2, b1) \<Rightarrow>
     (case read_derivation_steps store_past_end b1 (out2\<lparr>master_key_derivation_len := 0\<rparr>) of
        (False, out3, b2) \<Rightarrow> (- 1, out3, b2)
      | (True, out3, b2) \<Rightarrow>
     (case consume_character b2 (CHR '']'') of
        (False, b3) \<Rightarrow> (- 1, out3, b3)
      | (True, b3) \<Rightarrow> (0, out3, b3))))))"

definition parse_policy_map_key_info ::
  "past_end_store \<Rightarrow> nat \<Rightarrow> char list \<Rightarrow> int \<times> policy_map_key_info \<times> char list" where
  "parse_policy_map_key_info store_past_end MAX_SERIALIZED_PUBKEY_LENGTH buffer =
     (case parse_key_origin store_past_end buffer key_info_zero of (rc, out, b1) \<Rightarrow>
      if rc \<noteq> 0 then (rc, out, b1) else
      (case read_ext_pubkey b1 MAX_SERIALIZED_PUBKEY_LENGTH of (key, b2) \<Rightarrow>
       (let out1 = out\<lparr>ext_pubkey := key\<rparr>; ext_pubkey_len = length key in
        if ext_pubkey_len < 111 \<or> ext_pubkey_len > 112 then (- 1, out1, b2)
        else if \<not> buffer_can_read b2 1 then (0, out1, b2)
        else (let out2 = out1\<lparr>has_wildcard := True\<rparr> in
              (case buffer_read_bytes b2 3 of
                 (None, b3) \<Rightarrow> (- 1, out2, b3)
               | (Some wildcard, b3) \<Rightarrow>
                   if buffer_can_read b3 1 \<or> wildcard \<noteq> ''/**'' then (- 1, out2, b3)
                   else (0, out2, b3))))))"

subsection \<open>Policy nodes\<close>

datatype miniscript_type =
  MINISCRIPT_TYPE_B | MINISCRIPT_TYPE_V | MINISCRIPT_TYPE_K | MINISCRIPT_TYPE_W

text \<open>
  The bit-field \<^verbatim>\<open>flags\<close> of a node. Where the source sets \<^verbatim>\<open>is_miniscript = 0\<close> it
  writes no other bit of the field, and it reads the type and the modifiers of a node only
  after testing \<^verbatim>\<open>is_miniscript\<close>: such a node carries \<open>Not_Miniscript\<close>. Otherwise the
  field is \<open>Miniscript type z o n d u\<close>.
\<close>

datatype node_flags =
  Not_Miniscript | Miniscript miniscript_type bool bool bool bool bool

text \<open>
  One constructor for each node structure of the source; the first two arguments are
  \<^verbatim>\<open>base.type\<close> and \<^verbatim>\<open>base.flags\<close>. The linked \<^verbatim>\<open>scriptlist\<close> of a \<^verbatim>\<open>thresh\<close> node and the
  \<^verbatim>\<open>key_indexes\<close> array of a multisig node are lists, next to their counters \<^verbatim>\<open>k\<close> and
  \<^verbatim>\<open>n\<close>.
\<close>

datatype policy_node =
    Node_Constant PolicyNodeType node_flags
  | Node_With_Script PolicyNodeType node_flags policy_node
  | Node_With_Script2 PolicyNodeType node_flags policy_node policy_node
  | Node_With_Script3 PolicyNodeType node_flags policy_node policy_node policy_node
  | Node_Thresh PolicyNodeType node_flags size_t nat "policy_node list"
  | Node_With_Key PolicyNodeType node_flags size_t
  | Node_With_Uint32 PolicyNodeType node_flags "32 word"
  | Node_Multisig PolicyNodeType node_flags size_t nat "size_t list"
  | Node_With_Hash_256 PolicyNodeType node_flags "8 word list"
  | Node_With_Hash_160 PolicyNodeType node_flags "8 word list"

fun node_type :: "policy_node \<Rightarrow> PolicyNodeType" where
  "node_type (Node_Constant t f) = t"
| "node_type (Node_With_Script t f x) = t"
| "node_type (Node_With_Script2 t f x y) = t"
| "node_type (Node_With_Script3 t f x y z) = t"
| "node_type (Node_Thresh t f k n xs) = t"
| "node_type (Node_With_Key t f i) = t"
| "node_type (Node_With_Uint32 t f n) = t"
| "node_type (Node_Multisig t f k n is) = t"
| "node_type (Node_With_Hash_256 t f h) = t"
| "node_type (Node_With_Hash_160 t f h) = t"

fun flags :: "policy_node \<Rightarrow> node_flags" where
  "flags (Node_Constant t f) = f"
| "flags (Node_With_Script t f x) = f"
| "flags (Node_With_Script2 t f x y) = f"
| "flags (Node_With_Script3 t f x y z) = f"
| "flags (Node_Thresh t f k n xs) = f"
| "flags (Node_With_Key t f i) = f"
| "flags (Node_With_Uint32 t f n) = f"
| "flags (Node_Multisig t f k n is) = f"
| "flags (Node_With_Hash_256 t f h) = f"
| "flags (Node_With_Hash_160 t f h) = f"

subsection \<open>Output arena\<close>

text \<open>
  The structures allocated in the arena. Their declarations are in \<^verbatim>\<open>wallet.h\<close>, which is
  not part of the source under study: the parser takes their sizes as the parameter
  \<open>sizeof\<close>.
\<close>

datatype ctype =
    Policy_node_constant_t | Policy_node_with_script_t | Policy_node_with_script2_t
  | Policy_node_with_script3_t | Policy_node_thresh_t | Policy_node_scriptlist_t
  | Policy_node_with_key_t | Policy_node_with_uint32_t | Policy_node_multisig_t
  | Policy_node_with_hash_256_t | Policy_node_with_hash_160_t | Size_t

record arena =
  a_ptr :: nat
  a_size :: nat
  a_offset :: nat

text \<open>
  Modelled from the spec: \<^verbatim>\<open>buffer_create\<close> and \<^verbatim>\<open>buffer_alloc\<close> of \<^verbatim>\<open>buffer.c\<close>, which is
  not part of the source under study. Section 4.2 of the specification: a bump allocator
  over the region of the caller, which pads to the alignment on each aligned allocation
  and reports a lack of space (\<open>None\<close>, the \<^verbatim>\<open>NULL\<close> of the source) without moving. The
  alignment is that of \<^verbatim>\<open>parse_policy_map\<close>, 4 bytes.
\<close>

definition buffer_create :: "nat \<Rightarrow> nat \<Rightarrow> arena" where
  "buffer_create ptr sz = \<lparr>a_ptr = ptr, a_size = sz, a_offset = 0\<rparr>"

definition padding :: "nat \<Rightarrow> nat" where
  "padding address = (if address mod 4 \<noteq> 0 then 4 - address mod 4 else 0)"

definition buffer_alloc :: "arena \<Rightarrow> nat \<Rightarrow> bool \<Rightarrow> arena option" where
  "buffer_alloc buffer sz aligned =
     (let padding_size = (if aligned then padding (a_ptr buffer + a_offset buffer) else 0)
      in if a_offset buffer + padding_size + sz \<le> a_size buffer
         then Some (buffer\<lparr>a_offset := a_offset buffer + padding_size + sz\<rparr>)
         else None)"

subsection \<open>Parser state\<close>

record pstate =
  in_buf :: "char list"
  out_buf :: arena

type_synonym 'a parser = "pstate \<Rightarrow> 'a res \<times> pstate"

definition ret :: "'a \<Rightarrow> 'a parser" where
  "ret x = (\<lambda>s. (Ok x, s))"

definition fail :: "string \<Rightarrow> 'a parser" where
  "fail msg = (\<lambda>s. (Err msg, s))"

definition lift :: "'a res \<Rightarrow> 'a parser" where
  "lift r = (\<lambda>s. (r, s))"

text \<open>Sequencing: an error return of the first step is the return of the whole.\<close>

definition bnd :: "'a parser \<Rightarrow> ('a \<Rightarrow> 'b parser) \<Rightarrow> 'b parser" where
  "bnd m k =
     (\<lambda>s. case m s of
             (Ok x, s1) \<Rightarrow> k x s1
           | (Err e, s1) \<Rightarrow> (Err e, s1)
           | (NoFuel, s1) \<Rightarrow> (NoFuel, s1))"

definition require :: "bool \<Rightarrow> string \<Rightarrow> unit parser" where
  "require b msg = (if b then ret () else fail msg)"

text \<open>\<^verbatim>\<open>if (!consume_character(in_buf, c)) return WITH_ERROR(-1, msg)\<close>\<close>

definition expect_character :: "char \<Rightarrow> string \<Rightarrow> unit parser" where
  "expect_character c msg =
     (\<lambda>s. case consume_character (in_buf s) c of
             (True, b) \<Rightarrow> (Ok (), s\<lparr>in_buf := b\<rparr>)
           | (False, b) \<Rightarrow> (Err msg, s\<lparr>in_buf := b\<rparr>))"

text \<open>An aligned \<^verbatim>\<open>buffer_alloc\<close> whose \<^verbatim>\<open>NULL\<close> is the error "Out of memory".\<close>

definition alloc_node :: "nat \<Rightarrow> unit parser" where
  "alloc_node sz =
     (\<lambda>s. case buffer_alloc (out_buf s) sz True of
             None \<Rightarrow> (Err ''Out of memory'', s)
           | Some a \<Rightarrow> (Ok (), s\<lparr>out_buf := a\<rparr>))"

text \<open>\<^verbatim>\<open>buffer_alloc(out_buf, 0, true)\<close>, whose result the source ignores.\<close>

definition align_cur :: "unit parser" where
  "align_cur =
     (\<lambda>s. case buffer_alloc (out_buf s) 0 True of
             None \<Rightarrow> (Ok (), s)
           | Some a \<Rightarrow> (Ok (), s\<lparr>out_buf := a\<rparr>))"

definition read_decimal :: "string \<Rightarrow> size_t parser" where
  "read_decimal msg =
     (\<lambda>s. case parse_unsigned_decimal (in_buf s) of
             (Ok v, b) \<Rightarrow> (Ok v, s\<lparr>in_buf := b\<rparr>)
           | (_, b) \<Rightarrow> (Err msg, s\<lparr>in_buf := b\<rparr>))"

text \<open>\<^verbatim>\<open>parse_key_index\<close> returns \<^verbatim>\<open>(size_t) -1\<close> when it fails.\<close>

definition parse_key_index :: "char list \<Rightarrow> size_t \<times> char list" where
  "parse_key_index buffer =
     (case buffer_read_u8 buffer of
        (None, b) \<Rightarrow> (- 1, b)
      | (Some c, b) \<Rightarrow>
          if c \<noteq> CHR ''@'' then (- 1, b)
          else (case parse_unsigned_decimal b of
                  (Ok k, b1) \<Rightarrow> (k, b1)
                | (_, b1) \<Rightarrow> (- 1, b1)))"

text \<open>
  \<^verbatim>\<open>int key_index = parse_key_index(in_buf); if (key_index == -1) return WITH_ERROR(-1, msg)\<close>:
  the 32-bit value with all bits set is the error.
\<close>

definition read_key_index :: "string \<Rightarrow> size_t parser" where
  "read_key_index msg =
     (\<lambda>s. case parse_key_index (in_buf s) of
             (key_index, b) \<Rightarrow>
               if key_index = - 1 then (Err msg, s\<lparr>in_buf := b\<rparr>)
               else (Ok key_index, s\<lparr>in_buf := b\<rparr>))"

fun read_hex_bytes :: "char list \<Rightarrow> nat \<Rightarrow> 8 word list option \<times> char list" where
  "read_hex_bytes buffer 0 = (Some [], buffer)"
| "read_hex_bytes buffer (Suc i) =
     (case buffer of
        c1 # c2 # rest \<Rightarrow>
          if \<not> is_lowercase_hex c1 \<or> \<not> is_lowercase_hex c2 then (None, rest)
          else (case read_hex_bytes rest i of
                  (Some out, b) \<Rightarrow>
                    (Some ((16 * lowercase_hex_to_int c1 + lowercase_hex_to_int c2) # out), b)
                | (None, b) \<Rightarrow> (None, b))
      | _ \<Rightarrow> (None, buffer))"

definition buffer_read_hex_hash :: "char list \<Rightarrow> nat \<Rightarrow> 8 word list option \<times> char list" where
  "buffer_read_hex_hash buffer n =
     (if \<not> buffer_can_read buffer (2 * n) then (None, buffer) else read_hex_bytes buffer n)"

definition read_hex_hash :: "nat \<Rightarrow> string \<Rightarrow> 8 word list parser" where
  "read_hex_hash n msg =
     (\<lambda>s. case buffer_read_hex_hash (in_buf s) n of
             (Some h, b) \<Rightarrow> (Ok h, s\<lparr>in_buf := b\<rparr>)
           | (None, b) \<Rightarrow> (Err msg, s\<lparr>in_buf := b\<rparr>))"


subsection \<open>Wrapper prefix\<close>

definition is_valid_miniscript_wrapper :: "bool list" where
  "is_valid_miniscript_wrapper =
     [True, False, True, True, False, False, False, False, False, True, False, True, False,
      True, False, False, False, False, True, True, True, True, False, False, False, False]"

definition is_wrapper_character :: "char \<Rightarrow> bool" where
  "is_wrapper_character c =
     ((of_char (CHR ''a'') :: nat) \<le> of_char c \<and> (of_char c :: nat) \<le> of_char (CHR ''z'') \<and>
      is_valid_miniscript_wrapper ! (of_char c - of_char (CHR ''a'')))"

text \<open>
  The look-ahead loop at the head of \<^verbatim>\<open>parse_script\<close>: the number of wrapper characters
  and the character that stopped the loop, \<open>None\<close> when the buffer ended (\<^verbatim>\<open>can_read\<close>
  false).
\<close>

function lookahead_wrappers :: "char list \<Rightarrow> nat \<Rightarrow> nat \<times> char option" where
  "lookahead_wrappers buffer n_wrappers =
     (case buffer_peek_n buffer n_wrappers of
        Some c \<Rightarrow>
          if is_wrapper_character c then lookahead_wrappers buffer (n_wrappers + 1)
          else (n_wrappers, Some c)
      | None \<Rightarrow> (n_wrappers, None))"
  by pat_completeness auto
termination
  by (relation "measure (\<lambda>(b, n). length b - n)")
     (auto simp: buffer_peek_n_def split: if_splits)

declare lookahead_wrappers.simps [simp del]

text \<open>The \<^verbatim>\<open>switch (c)\<close> over the wrapper letters; \<open>None\<close> is its \<^verbatim>\<open>default\<close>.\<close>

definition wrapper_type :: "char \<Rightarrow> PolicyNodeType option" where
  "wrapper_type c =
     (if c = CHR ''a'' then Some TOKEN_A else if c = CHR ''s'' then Some TOKEN_S
      else if c = CHR ''c'' then Some TOKEN_C else if c = CHR ''t'' then Some TOKEN_T
      else if c = CHR ''d'' then Some TOKEN_D else if c = CHR ''v'' then Some TOKEN_V
      else if c = CHR ''j'' then Some TOKEN_J else if c = CHR ''n'' then Some TOKEN_N
      else if c = CHR ''l'' then Some TOKEN_L else if c = CHR ''u'' then Some TOKEN_U
      else None)"

text \<open>
  The loop that allocates one \<^verbatim>\<open>policy_node_with_script_t\<close> for each wrapper letter and
  sets its type; the result lists the types, the outermost first.
\<close>

fun parse_wrappers :: "(ctype \<Rightarrow> nat) \<Rightarrow> nat \<Rightarrow> PolicyNodeType list parser" where
  "parse_wrappers sizeof 0 = ret []"
| "parse_wrappers sizeof (Suc i) =
     bnd (alloc_node (sizeof Policy_node_with_script_t)) (\<lambda>_.
     bnd (\<lambda>s. case buffer_read_u8 (in_buf s) of
                 (None, b) \<Rightarrow> (Err [], s\<lparr>in_buf := b\<rparr>)
               | (Some c, b) \<Rightarrow>
                   (case wrapper_type c of
                      None \<Rightarrow> (Err [], s\<lparr>in_buf := b\<rparr>)
                    | Some t \<Rightarrow> (Ok t, s\<lparr>in_buf := b\<rparr>))) (\<lambda>t.
     bnd (parse_wrappers sizeof i) (\<lambda>ts. ret (t # ts))))"

definition parse_wrapper_prefix :: "(ctype \<Rightarrow> nat) \<Rightarrow> PolicyNodeType list parser" where
  "parse_wrapper_prefix sizeof =
     (\<lambda>s. case lookahead_wrappers (in_buf s) 0 of
             (n_wrappers, c) \<Rightarrow>
               if c = Some (CHR '':'')
               then bnd (parse_wrappers sizeof n_wrappers)
                      (\<lambda>ts s1. (Ok ts, s1\<lparr>in_buf := buffer_seek_cur (in_buf s1) 1\<rparr>)) s
               else (Ok [], s))"

subsection \<open>Type rules of the wrappers\<close>

text \<open>One step of the last loop of \<^verbatim>\<open>parse_script\<close>: the flags of a wrapper over \<open>X\<close>.\<close>

fun wrapper_flags :: "PolicyNodeType \<Rightarrow> node_flags \<Rightarrow> node_flags res" where
  "wrapper_flags w Not_Miniscript = Err ''wrappers can only be applied to miniscript''"
| "wrapper_flags w (Miniscript X_type X_z X_o X_n X_d X_u) =
     (case w of
        TOKEN_A \<Rightarrow>
          if X_type \<noteq> MINISCRIPT_TYPE_B then Err ''a wrapper requires a B type child''
          else Ok (Miniscript MINISCRIPT_TYPE_W False False False X_d X_u)
      | TOKEN_S \<Rightarrow>
          if X_type \<noteq> MINISCRIPT_TYPE_B \<or> \<not> X_o then Err ''s wrapper requires a Bu type child''
          else Ok (Miniscript MINISCRIPT_TYPE_W False False False X_d X_u)
      | TOKEN_C \<Rightarrow>
          if X_type \<noteq> MINISCRIPT_TYPE_K then Err ''c wrapper requires a K type child''
          else Ok (Miniscript MINISCRIPT_TYPE_B False X_o X_n X_d True)
      | TOKEN_T \<Rightarrow>
          if X_type \<noteq> MINISCRIPT_TYPE_V then Err ''t wrapper requires a V type child''
          else Ok (Miniscript MINISCRIPT_TYPE_B X_z X_o X_n False True)
      | TOKEN_D \<Rightarrow>
          if X_type \<noteq> MINISCRIPT_TYPE_V \<or> \<not> X_z then Err ''d wrapper requires a Vz type child''
          else Ok (Miniscript MINISCRIPT_TYPE_B False True True True False)
      | TOKEN_V \<Rightarrow>
          if X_type \<noteq> MINISCRIPT_TYPE_B then Err ''v wrapper requires a B type child''
          else Ok (Miniscript MINISCRIPT_TYPE_V X_z X_o X_n False False)
      | TOKEN_J \<Rightarrow>
          if X_type \<noteq> MINISCRIPT_TYPE_B \<or> \<not> X_n then Err ''j wrapper requires a Bn type child''
          else Ok (Miniscript MINISCRIPT_TYPE_B False X_o True True X_u)
      | TOKEN_N \<Rightarrow>
          if X_type \<noteq> MINISCRIPT_TYPE_B then Err ''n wrapper requires a B type child''
          else Ok (Miniscript MINISCRIPT_TYPE_B X_z X_o X_n X_d True)
      | TOKEN_L \<Rightarrow>
          if X_type \<noteq> MINISCRIPT_TYPE_B then Err ''l wrapper requires a B type child''
          else Ok (Miniscript MINISCRIPT_TYPE_B False X_z False True X_u)
      | TOKEN_U \<Rightarrow>
          if X_type \<noteq> MINISCRIPT_TYPE_B then Err ''u wrapper requires a B type child''
          else Ok (Miniscript MINISCRIPT_TYPE_B False X_z False True X_u)
      | _ \<Rightarrow> Err ''unreachable code reached'')"

text \<open>
  The loop runs from the innermost wrapper (\<open>i = n_wrappers - 1\<close>), whose \<^verbatim>\<open>script\<close> is the
  parsed node, to the outermost (\<open>i = 0\<close>), whose \<^verbatim>\<open>script\<close> is the wrapper after it.
\<close>

fun apply_wrappers :: "PolicyNodeType list \<Rightarrow> policy_node \<Rightarrow> policy_node res" where
  "apply_wrappers [] parsed_node = Ok parsed_node"
| "apply_wrappers (w # ws) parsed_node =
     (case apply_wrappers ws parsed_node of
        Ok X \<Rightarrow>
          (case wrapper_flags w (flags X) of
             Ok f \<Rightarrow> Ok (Node_With_Script w f X)
           | Err e \<Rightarrow> Err e
           | NoFuel \<Rightarrow> NoFuel)
      | Err e \<Rightarrow> Err e
      | NoFuel \<Rightarrow> NoFuel)"

subsection \<open>Type rules of the fragments\<close>

fun andor_flags :: "node_flags \<Rightarrow> node_flags \<Rightarrow> node_flags \<Rightarrow> node_flags res" where
  "andor_flags (Miniscript Xt Xz Xo Xn Xd Xu) (Miniscript Yt Yz Yo Yn Yd Yu)
               (Miniscript Zt Zz Zo Zn Zd Zu) =
     (if Xt \<noteq> MINISCRIPT_TYPE_B \<or> \<not> Xd \<or> \<not> Xu then Err ''invalid type''
      else if Yt \<noteq> Zt then Err ''invalid type''
      else if Yt = MINISCRIPT_TYPE_W then Err ''invalid type''
      else Ok (Miniscript Yt (Xz \<and> Yz \<and> Zz) ((Xz \<and> Yo \<and> Zo) \<or> (Xo \<and> Yz \<and> Zz)) False Zd
                 (Yu \<and> Zu)))"
| "andor_flags _ _ _ = Err ''children of andor must be miniscript''"

fun and_v_flags :: "node_flags \<Rightarrow> node_flags \<Rightarrow> node_flags res" where
  "and_v_flags (Miniscript Xt Xz Xo Xn Xd Xu) (Miniscript Yt Yz Yo Yn Yd Yu) =
     (if Xt \<noteq> MINISCRIPT_TYPE_V then Err ''invalid type''
      else if Yt = MINISCRIPT_TYPE_W then Err ''invalid type''
      else Ok (Miniscript Yt (Xz \<and> Yz) ((Xz \<and> Yo) \<or> (Xo \<and> Yz)) (Xn \<or> (Xz \<and> Yn)) False Yu))"
| "and_v_flags _ _ = Err ''children of or_d must be miniscript''"

fun and_b_flags :: "node_flags \<Rightarrow> node_flags \<Rightarrow> node_flags res" where
  "and_b_flags (Miniscript Xt Xz Xo Xn Xd Xu) (Miniscript Yt Yz Yo Yn Yd Yu) =
     (if Xt \<noteq> MINISCRIPT_TYPE_B \<or> Yt \<noteq> MINISCRIPT_TYPE_W then Err ''invalid type''
      else Ok (Miniscript MINISCRIPT_TYPE_B (Xz \<and> Yz) ((Xz \<and> Yo) \<or> (Xo \<and> Yz))
                 (Xn \<or> (Xz \<and> Yn)) (Xd \<and> Yd) Yu))"
| "and_b_flags _ _ = Err ''children of or_d must be miniscript''"

fun and_n_flags :: "node_flags \<Rightarrow> node_flags \<Rightarrow> node_flags res" where
  "and_n_flags (Miniscript Xt Xz Xo Xn Xd Xu) (Miniscript Yt Yz Yo Yn Yd Yu) =
     (if Xt \<noteq> MINISCRIPT_TYPE_B \<or> \<not> Xd \<or> \<not> Xu then Err ''invalid type''
      else if Yt \<noteq> MINISCRIPT_TYPE_B then Err ''invalid type''
      else Ok (Miniscript MINISCRIPT_TYPE_B (Xz \<and> Yz) (Xo \<and> Yz) False True Yu))"
| "and_n_flags _ _ = Err ''children of or_d must be miniscript''"

fun or_b_flags :: "node_flags \<Rightarrow> node_flags \<Rightarrow> node_flags res" where
  "or_b_flags (Miniscript Xt Xz Xo Xn Xd Xu) (Miniscript Zt Zz Zo Zn Zd Zu) =
     (if Xt \<noteq> MINISCRIPT_TYPE_B \<or> \<not> Xd then Err ''invalid type''
      else if Zt \<noteq> MINISCRIPT_TYPE_W \<or> \<not> Zd then Err ''invalid type''
      else Ok (Miniscript MINISCRIPT_TYPE_B (Xz \<and> Zz) ((Xz \<and> Zo) \<or> (Xo \<and> Zz)) False True True))"
| "or_b_flags _ _ = Err ''children of or_d must be miniscript''"

fun or_c_flags :: "node_flags \<Rightarrow> node_flags \<Rightarrow> node_flags res" where
  "or_c_flags (Miniscript Xt Xz Xo Xn Xd Xu) (Miniscript Zt Zz Zo Zn Zd Zu) =
     (if Xt \<noteq> MINISCRIPT_TYPE_B \<or> \<not> Xd \<or> \<not> Xu then Err ''invalid type''
      else if Zt \<noteq> MINISCRIPT_TYPE_V then Err ''invalid type''
      else Ok (Miniscript MINISCRIPT_TYPE_V (Xz \<and> Zz) (Xo \<and> Zo) False False False))"
| "or_c_flags _ _ = Err ''children of or_d must be miniscript''"

fun or_d_flags :: "node_flags \<Rightarrow> node_flags \<Rightarrow> node_flags res" where
  "or_d_flags (Miniscript Xt Xz Xo Xn Xd Xu) (Miniscript Zt Zz Zo Zn Zd Zu) =
     (if Xt \<noteq> MINISCRIPT_TYPE_B \<or> \<not> Xd \<or> \<not> Xu then Err ''invalid type''
      else if Zt \<noteq> MINISCRIPT_TYPE_B then Err ''invalid type''
      else Ok (Miniscript MINISCRIPT_TYPE_B (Xz \<and> Zz) (Xo \<and> Zo) False Zd Zu))"
| "or_d_flags _ _ = Err ''children of or_d must be miniscript''"

fun or_i_flags :: "node_flags \<Rightarrow> node_flags \<Rightarrow> node_flags res" where
  "or_i_flags (Miniscript Xt Xz Xo Xn Xd Xu) (Miniscript Zt Zz Zo Zn Zd Zu) =
     (if Xt = MINISCRIPT_TYPE_W then Err ''invalid type''
      else if Xt \<noteq> Zt then Err ''invalid type''
      else Ok (Miniscript Xt False (Xz \<and> Zz) False (Xd \<or> Zd) (Xu \<and> Zu)))"
| "or_i_flags _ _ = Err ''children of or_d must be miniscript''"

text \<open>
  The checks on one child of \<^verbatim>\<open>thresh\<close>, \<open>n\<close> being the counter \<^verbatim>\<open>node->n\<close> after its
  increment; the result is the pair of the modifiers z and o of the child.
\<close>

fun thresh_child_check :: "nat \<Rightarrow> node_flags \<Rightarrow> (bool \<times> bool) res" where
  "thresh_child_check n Not_Miniscript = Err ''children of thresh must be miniscript''"
| "thresh_child_check n (Miniscript t z o' n' d u) =
     (if n = 1 \<and> t \<noteq> MINISCRIPT_TYPE_B
        then Err ''the first children of thresh must be of type B''
      else if n \<noteq> 1 \<and> t \<noteq> MINISCRIPT_TYPE_W
        then Err ''each child of thresh (except the first) must be of type W''
      else if \<not> d \<or> \<not> u then Err ''each child of thresh must have properties d and u''
      else Ok (z, o'))"

fun key_node_flags :: "PolicyNodeType \<Rightarrow> node_flags res" where
  "key_node_flags TOKEN_WPKH = Ok Not_Miniscript"
| "key_node_flags TOKEN_PK = Ok (Miniscript MINISCRIPT_TYPE_B False True True True True)"
| "key_node_flags TOKEN_PKH = Ok (Miniscript MINISCRIPT_TYPE_B False False True True True)"
| "key_node_flags TOKEN_PK_K = Ok (Miniscript MINISCRIPT_TYPE_K False True True True True)"
| "key_node_flags TOKEN_PK_H = Ok (Miniscript MINISCRIPT_TYPE_K False False True True True)"
| "key_node_flags _ = Err ''unreachable code reached''"


subsection \<open>The cases of \<^verbatim>\<open>parse_script\<close>\<close>

text \<open>
  In the definitions of this section \<open>rec\<close> stands for the recursive call
  \<^verbatim>\<open>parse_script(in_buf, out_buf, depth, context_flags)\<close>, applied to \<open>depth\<close> and
  \<open>context_flags\<close>. The messages of \<^verbatim>\<open>WITH_ERROR\<close> are kept, without the quotation marks
  that some of them put around a character.
\<close>

definition CONTEXT_WITHIN_SH :: "32 word" where
  "CONTEXT_WITHIN_SH = 1"

definition CONTEXT_WITHIN_WSH :: "32 word" where
  "CONTEXT_WITHIN_WSH = 2"

type_synonym script_parser = "nat \<Rightarrow> 32 word \<Rightarrow> policy_node parser"

text \<open>\<^verbatim>\<open>parse_child_scripts\<close>, from \<open>child_index\<close> on.\<close>

function parse_child_scripts ::
  "script_parser \<Rightarrow> nat \<Rightarrow> int \<Rightarrow> int \<Rightarrow> policy_node list parser" where
  "parse_child_scripts rec depth n_children child_index =
     (if child_index < n_children then
        bnd align_cur (\<lambda>_.
        bnd (rec (depth + 1) 0) (\<lambda>child.
        bnd (if child_index \<le> n_children - 2
             then expect_character (CHR '','') ''Expected ,'' else ret ()) (\<lambda>_.
        bnd (parse_child_scripts rec depth n_children (child_index + 1)) (\<lambda>children.
        ret (child # children)))))
      else ret [])"
  by pat_completeness auto
termination
  by (relation "measure (\<lambda>(rec, depth, n_children, child_index). nat (n_children - child_index))")
     auto

declare parse_child_scripts.simps [simp del]

definition parse_constant :: "(ctype \<Rightarrow> nat) \<Rightarrow> PolicyNodeType \<Rightarrow> policy_node parser" where
  "parse_constant sizeof token =
     bnd (alloc_node (sizeof Policy_node_constant_t)) (\<lambda>_.
     ret (Node_Constant token
            (if token = TOKEN_0 then Miniscript MINISCRIPT_TYPE_B True False False True True
             else Miniscript MINISCRIPT_TYPE_B True False False False True)))"

definition parse_sh_wsh ::
  "(ctype \<Rightarrow> nat) \<Rightarrow> script_parser \<Rightarrow> nat \<Rightarrow> 32 word \<Rightarrow> PolicyNodeType \<Rightarrow> policy_node parser" where
  "parse_sh_wsh sizeof rec depth context_flags token =
     bnd (require (\<not> (token = TOKEN_SH \<and> depth \<noteq> 0)) ''sh can only be a top-level function'') (\<lambda>_.
     bnd (require (\<not> (token = TOKEN_WSH \<and> depth \<noteq> 0 \<and> context_flags AND CONTEXT_WITHIN_SH = 0))
            ''wsh can only be top-level or inside sh'') (\<lambda>_.
     bnd (alloc_node (sizeof Policy_node_with_script_t)) (\<lambda>_.
     (let inner_context_flags =
            (if token = TOKEN_SH then CONTEXT_WITHIN_SH else CONTEXT_WITHIN_WSH)
      in bnd align_cur (\<lambda>_.
         bnd (rec (depth + 1) inner_context_flags) (\<lambda>script.
         ret (Node_With_Script token Not_Miniscript script)))))))"

definition parse_hash_256 :: "(ctype \<Rightarrow> nat) \<Rightarrow> PolicyNodeType \<Rightarrow> policy_node parser" where
  "parse_hash_256 sizeof token =
     bnd (alloc_node (sizeof Policy_node_with_hash_256_t)) (\<lambda>_.
     bnd (read_hex_hash 32 ''Failed to parse 32-byte hash image'') (\<lambda>h.
     ret (Node_With_Hash_256 token (Miniscript MINISCRIPT_TYPE_B True True False True True) h)))"

definition parse_hash_160 :: "(ctype \<Rightarrow> nat) \<Rightarrow> PolicyNodeType \<Rightarrow> policy_node parser" where
  "parse_hash_160 sizeof token =
     bnd (alloc_node (sizeof Policy_node_with_hash_160_t)) (\<lambda>_.
     bnd (read_hex_hash 20 ''Failed to parse 20-byte hash image'') (\<lambda>h.
     ret (Node_With_Hash_160 token (Miniscript MINISCRIPT_TYPE_B True True False True True) h)))"

definition parse_andor ::
  "(ctype \<Rightarrow> nat) \<Rightarrow> script_parser \<Rightarrow> nat \<Rightarrow> PolicyNodeType \<Rightarrow> policy_node parser" where
  "parse_andor sizeof rec depth token =
     bnd (alloc_node (sizeof Policy_node_with_script3_t)) (\<lambda>_.
     bnd (parse_child_scripts rec depth 3 0) (\<lambda>scripts.
     (case scripts of
        [X, Y, Z] \<Rightarrow>
          bnd (lift (andor_flags (flags X) (flags Y) (flags Z))) (\<lambda>f.
          ret (Node_With_Script3 token f X Y Z))
      | _ \<Rightarrow> fail [])))"

text \<open>
  The seven fragments with two children differ in their type rule only, the parameter
  \<open>rule\<close>.
\<close>

definition parse_script2 ::
  "(ctype \<Rightarrow> nat) \<Rightarrow> script_parser \<Rightarrow> nat \<Rightarrow> PolicyNodeType \<Rightarrow>
   (node_flags \<Rightarrow> node_flags \<Rightarrow> node_flags res) \<Rightarrow> policy_node parser" where
  "parse_script2 sizeof rec depth token rule =
     bnd (alloc_node (sizeof Policy_node_with_script2_t)) (\<lambda>_.
     bnd (parse_child_scripts rec depth 2 0) (\<lambda>scripts.
     (case scripts of
        [X, Y] \<Rightarrow>
          bnd (lift (rule (flags X) (flags Y))) (\<lambda>f.
          ret (Node_With_Script2 token f X Y))
      | _ \<Rightarrow> fail [])))"

text \<open>
  The loop of \<^verbatim>\<open>thresh\<close> over the children. It ends when no comma follows a child; each
  further round has read a comma, so the unread input bounds the rounds: \<open>rounds\<close> is
  that bound, and \<open>NoFuel\<close> the result of a loop that exceeds it. The result is the list of
  the children with the counters \<open>n\<close>, \<open>count_z\<close> and \<open>count_o\<close>.
\<close>

fun thresh_loop ::
  "(ctype \<Rightarrow> nat) \<Rightarrow> script_parser \<Rightarrow> nat \<Rightarrow> nat \<Rightarrow> nat \<Rightarrow> nat \<Rightarrow> nat \<Rightarrow>
   (policy_node list \<times> nat \<times> nat \<times> nat) parser" where
  "thresh_loop sizeof rec depth 0 n count_z count_o = (\<lambda>s. (NoFuel, s))"
| "thresh_loop sizeof rec depth (Suc rounds) n count_z count_o =
     bnd align_cur (\<lambda>_.
     bnd (rec (depth + 1) 0) (\<lambda>script.
     bnd (lift (thresh_child_check (n + 1) (flags script))) (\<lambda>(z, o').
     (let count_z1 = (if z then count_z + 1 else count_z);
          count_o1 = (if o' then count_o + 1 else count_o)
      in (\<lambda>s. case consume_character (in_buf s) (CHR '','') of
                 (True, b) \<Rightarrow>
                   bnd (alloc_node (sizeof Policy_node_scriptlist_t)) (\<lambda>_.
                   bnd (thresh_loop sizeof rec depth rounds (n + 1) count_z1 count_o1)
                     (\<lambda>(scripts, counters). ret (script # scripts, counters)))
                     (s\<lparr>in_buf := b\<rparr>)
               | (False, b) \<Rightarrow>
                   (Ok ([script], n + 1, count_z1, count_o1), s\<lparr>in_buf := b\<rparr>))))))"

definition parse_thresh ::
  "(ctype \<Rightarrow> nat) \<Rightarrow> script_parser \<Rightarrow> nat \<Rightarrow> PolicyNodeType \<Rightarrow> policy_node parser" where
  "parse_thresh sizeof rec depth token =
     bnd (alloc_node (sizeof Policy_node_thresh_t)) (\<lambda>_.
     bnd (read_decimal ''Error parsing threshold'') (\<lambda>k.
     bnd (expect_character (CHR '','') ''Expected a comma'') (\<lambda>_.
     bnd (require (\<not> k < 1) ''Threshold must be at least 1'') (\<lambda>_.
     bnd (alloc_node (sizeof Policy_node_scriptlist_t)) (\<lambda>_.
     bnd (\<lambda>s. thresh_loop sizeof rec depth (Suc (length (in_buf s))) 0 0 0 s)
       (\<lambda>(scripts, n, count_z, count_o).
     ret (Node_Thresh token
            (Miniscript MINISCRIPT_TYPE_B (count_z = n) (count_z = n - 1 \<and> count_o = 1)
               False False False)
            k n scripts)))))))"

definition parse_key_node ::
  "(ctype \<Rightarrow> nat) \<Rightarrow> nat \<Rightarrow> 32 word \<Rightarrow> PolicyNodeType \<Rightarrow> policy_node parser" where
  "parse_key_node sizeof depth context_flags token =
     bnd (alloc_node (sizeof Policy_node_with_key_t)) (\<lambda>_.
     bnd (require (\<not> (token = TOKEN_WPKH \<and> depth > 0 \<and> context_flags AND CONTEXT_WITHIN_SH = 0))
            ''wpkh can only be top-level or inside sh'') (\<lambda>_.
     bnd (read_key_index ''Couldn't parse key index'') (\<lambda>key_index.
     bnd (lift (key_node_flags token)) (\<lambda>f.
     ret (Node_With_Key token f key_index)))))"

definition parse_tr :: "(ctype \<Rightarrow> nat) \<Rightarrow> nat \<Rightarrow> PolicyNodeType \<Rightarrow> policy_node parser" where
  "parse_tr sizeof depth token =
     bnd (alloc_node (sizeof Policy_node_with_key_t)) (\<lambda>_.
     bnd (require (\<not> depth > 1) ''tr can only be top-level'') (\<lambda>_.
     bnd (read_key_index ''Couldn't parse key index'') (\<lambda>key_index.
     ret (Node_With_Key token Not_Miniscript key_index))))"

definition parse_older_after :: "(ctype \<Rightarrow> nat) \<Rightarrow> PolicyNodeType \<Rightarrow> policy_node parser" where
  "parse_older_after sizeof token =
     bnd (alloc_node (sizeof Policy_node_with_uint32_t)) (\<lambda>_.
     bnd (read_decimal ''Error parsing number'') (\<lambda>n.
     bnd (require (\<not> (n < 1 \<or> n \<ge> push_bit 31 1)) ''n must satisfy 1 <= n < 2^31 in older/after'')
       (\<lambda>_.
     ret (Node_With_Uint32 token
            (Miniscript MINISCRIPT_TYPE_B True False False False False) n))))"

text \<open>
  The loop of \<^verbatim>\<open>multi\<close> and \<^verbatim>\<open>sortedmulti\<close> over the key indexes: \<open>key_indexes\<close> is the
  array written so far, whose length is \<^verbatim>\<open>node->n\<close>.
\<close>

function multi_loop :: "nat \<Rightarrow> size_t list \<Rightarrow> pstate \<Rightarrow> size_t list res \<times> pstate" where
  "multi_loop size_of_size_t key_indexes s =
     (if buffer_peek (in_buf s) = Some (CHR '')'') then (Ok key_indexes, s)
      else
        (case consume_character (in_buf s) (CHR '','') of
           (False, b) \<Rightarrow> (Err ''Expected ,'', s\<lparr>in_buf := b\<rparr>)
         | (True, b) \<Rightarrow>
             (case parse_key_index b of
                (key_index, b1) \<Rightarrow>
                  if key_index = - 1 then (Err ''Error parsing key index'', s\<lparr>in_buf := b1\<rparr>)
                  else
                    (case buffer_alloc (out_buf s) size_of_size_t True of
                       None \<Rightarrow> (Err ''Out of memory'', s\<lparr>in_buf := b1\<rparr>)
                     | Some a \<Rightarrow>
                         multi_loop size_of_size_t (key_indexes @ [key_index])
                           \<lparr>in_buf = b1, out_buf = a\<rparr>))))"
  by pat_completeness auto
termination
proof (relation "measure (\<lambda>(sz, keys, s). length (in_buf s))")
  show "wf (measure (\<lambda>(sz, keys, s). length (in_buf s)))" by simp
next
  fix size_of_size_t :: nat and key_indexes :: "size_t list" and s :: pstate
    and x b key_index b1 a
  assume c: "(x, b) = consume_character (in_buf s) (CHR '','')" and x: "x = True"
     and k: "(key_index, b1) = parse_key_index b"
  have loop: "length (snd (parse_unsigned_decimal_loop b r d)) \<le> length b"
    for b d and r :: size_t
    by (induction b arbitrary: r d) (auto simp: Let_def intro: le_SucI)
  have dec: "length (snd (parse_unsigned_decimal b)) \<le> length b" for b
    using loop [of b 0 0]
    by (auto simp: parse_unsigned_decimal_def split: prod.splits option.splits)
  have "length (snd (parse_key_index b)) \<le> length b"
  proof (cases b)
    case Nil
    then show ?thesis by (simp add: parse_key_index_def buffer_read_u8_def)
  next
    case (Cons c cs)
    then show ?thesis
      using dec [of cs]
      by (auto simp: parse_key_index_def buffer_read_u8_def split: prod.splits res.splits)
  qed
  then have "length b1 \<le> length b"
    using k by (metis snd_conv)
  moreover have "length b < length (in_buf s)"
    using c x
    by (auto simp: consume_character_def buffer_peek_def buffer_seek_cur_def
             split: option.splits list.splits if_splits)
  ultimately show "((size_of_size_t, key_indexes @ [key_index], \<lparr>in_buf = b1, out_buf = a\<rparr>),
                    size_of_size_t, key_indexes, s)
                   \<in> measure (\<lambda>(sz, keys, s). length (in_buf s))"
    by simp
qed

declare multi_loop.simps [simp del]

text \<open>The context test of \<^verbatim>\<open>sortedmulti\<close>: true when the source returns the error.\<close>

definition sortedmulti_context_error :: "32 word \<Rightarrow> bool" where
  "sortedmulti_context_error context_flags =
     (context_flags AND CONTEXT_WITHIN_SH \<noteq> 0 \<and> context_flags AND CONTEXT_WITHIN_WSH \<noteq> 0)"

definition parse_multi ::
  "(ctype \<Rightarrow> nat) \<Rightarrow> 32 word \<Rightarrow> PolicyNodeType \<Rightarrow> policy_node parser" where
  "parse_multi sizeof context_flags token =
     bnd (alloc_node (sizeof Policy_node_multisig_t)) (\<lambda>_.
     bnd (require (\<not> (token = TOKEN_SORTEDMULTI \<and> sortedmulti_context_error context_flags))
            ''sortedmulti can only be directly under sh or wsh'') (\<lambda>_.
     bnd (read_decimal ''Error parsing threshold'') (\<lambda>k.
     bnd align_cur (\<lambda>_.
     bnd (multi_loop (sizeof Size_t) []) (\<lambda>key_indexes.
     (let n = length key_indexes in
      bnd (require (1 \<le> k \<and> unat k \<le> n \<and> n \<le> MAX_POLICY_MAP_COSIGNERS) ''Invalid k and/or n'')
        (\<lambda>_.
      ret (Node_Multisig token
             (if token = TOKEN_SORTEDMULTI then Not_Miniscript
              else Miniscript MINISCRIPT_TYPE_B False False True True True)
             k n key_indexes))))))))"

text \<open>The \<^verbatim>\<open>switch (token)\<close>.\<close>

definition parse_node ::
  "(ctype \<Rightarrow> nat) \<Rightarrow> script_parser \<Rightarrow> nat \<Rightarrow> 32 word \<Rightarrow> PolicyNodeType \<Rightarrow> policy_node parser" where
  "parse_node sizeof rec depth context_flags token =
     (case token of
        TOKEN_0 \<Rightarrow> parse_constant sizeof token
      | TOKEN_1 \<Rightarrow> parse_constant sizeof token
      | TOKEN_SH \<Rightarrow> parse_sh_wsh sizeof rec depth context_flags token
      | TOKEN_WSH \<Rightarrow> parse_sh_wsh sizeof rec depth context_flags token
      | TOKEN_SHA256 \<Rightarrow> parse_hash_256 sizeof token
      | TOKEN_HASH256 \<Rightarrow> parse_hash_256 sizeof token
      | TOKEN_RIPEMD160 \<Rightarrow> parse_hash_160 sizeof token
      | TOKEN_HASH160 \<Rightarrow> parse_hash_160 sizeof token
      | TOKEN_ANDOR \<Rightarrow> parse_andor sizeof rec depth token
      | TOKEN_AND_V \<Rightarrow> parse_script2 sizeof rec depth token and_v_flags
      | TOKEN_AND_B \<Rightarrow> parse_script2 sizeof rec depth token and_b_flags
      | TOKEN_AND_N \<Rightarrow> parse_script2 sizeof rec depth token and_n_flags
      | TOKEN_OR_B \<Rightarrow> parse_script2 sizeof rec depth token or_b_flags
      | TOKEN_OR_C \<Rightarrow> parse_script2 sizeof rec depth token or_c_flags
      | TOKEN_OR_D \<Rightarrow> parse_script2 sizeof rec depth token or_d_flags
      | TOKEN_OR_I \<Rightarrow> parse_script2 sizeof rec depth token or_i_flags
      | TOKEN_THRESH \<Rightarrow> parse_thresh sizeof rec depth token
      | TOKEN_PK \<Rightarrow> parse_key_node sizeof depth context_flags token
      | TOKEN_PKH \<Rightarrow> parse_key_node sizeof depth context_flags token
      | TOKEN_PK_K \<Rightarrow> parse_key_node sizeof depth context_flags token
      | TOKEN_PK_H \<Rightarrow> parse_key_node sizeof depth context_flags token
      | TOKEN_WPKH \<Rightarrow> parse_key_node sizeof depth context_flags token
      | TOKEN_TR \<Rightarrow> parse_tr sizeof depth token
      | TOKEN_OLDER \<Rightarrow> parse_older_after sizeof token
      | TOKEN_AFTER \<Rightarrow> parse_older_after sizeof token
      | TOKEN_MULTI \<Rightarrow> parse_multi sizeof context_flags token
      | TOKEN_SORTEDMULTI \<Rightarrow> parse_multi sizeof context_flags token
      | _ \<Rightarrow> fail [])"

subsection \<open>\<^verbatim>\<open>parse_script\<close> and \<^verbatim>\<open>parse_policy_map\<close>\<close>

text \<open>
  The part of \<^verbatim>\<open>parse_script\<close> between the wrapper prefix and the wrapper loop: the token,
  the parentheses around the case of the token, and the test at depth 0 that the input is
  used up. Its result is \<^verbatim>\<open>parsed_node\<close>.
\<close>

definition parse_unwrapped ::
  "(ctype \<Rightarrow> nat) \<Rightarrow> script_parser \<Rightarrow> nat \<Rightarrow> 32 word \<Rightarrow> policy_node parser" where
  "parse_unwrapped sizeof rec depth context_flags =
     (\<lambda>s. case parse_token (in_buf s) of
             (token, b) \<Rightarrow>
               (let has_parentheses = (token \<noteq> TOKEN_0 \<and> token \<noteq> TOKEN_1) in
                bnd (if has_parentheses then expect_character (CHR ''('') ''Expected (''
                     else ret ()) (\<lambda>_.
                bnd (parse_node sizeof rec depth context_flags token) (\<lambda>parsed_node.
                bnd (if has_parentheses then expect_character (CHR '')'') ''Expected )''
                     else ret ()) (\<lambda>_.
                bnd (\<lambda>s1. if depth = 0 \<and> buffer_can_read (in_buf s1) 1
                           then (Err ''Input buffer too long'', s1) else (Ok (), s1)) (\<lambda>_.
                ret parsed_node)))))
                 (s\<lparr>in_buf := b\<rparr>))"

definition parse_script_body ::
  "(ctype \<Rightarrow> nat) \<Rightarrow> script_parser \<Rightarrow> nat \<Rightarrow> 32 word \<Rightarrow> policy_node parser" where
  "parse_script_body sizeof rec depth context_flags =
     bnd (parse_wrapper_prefix sizeof) (\<lambda>wrappers.
     bnd (parse_unwrapped sizeof rec depth context_flags) (\<lambda>parsed_node.
     lift (apply_wrappers wrappers parsed_node)))"

text \<open>
  \<^verbatim>\<open>parse_script\<close> calls itself for the children of a node. The first argument after
  \<open>sizeof\<close> bounds the depth of these calls; \<open>NoFuel\<close> is the result of a call beyond the
  bound, which is not a return of the source.
\<close>

primrec parse_script :: "(ctype \<Rightarrow> nat) \<Rightarrow> nat \<Rightarrow> script_parser" where
  "parse_script sizeof 0 = (\<lambda>depth context_flags s. (NoFuel, s))"
| "parse_script sizeof (Suc fuel) = parse_script_body sizeof (parse_script sizeof fuel)"

text \<open>
  \<^verbatim>\<open>parse_policy_map(in_buf, out, out_len)\<close>. Every nested call follows an opening
  parenthesis, so the length of the input bounds the depth. The result is the return of the
  source, the unread rest of the input, and the arena if one was created.
\<close>

definition parse_policy_map ::
  "(ctype \<Rightarrow> nat) \<Rightarrow> char list \<Rightarrow> nat \<Rightarrow> nat \<Rightarrow> policy_node res \<times> char list \<times> arena option" where
  "parse_policy_map sizeof buffer out out_len =
     (if out mod 4 \<noteq> 0 then (Err ''Unaligned pointer'', buffer, None)
      else
        (case parse_script sizeof (Suc (length buffer)) 0 0
                \<lparr>in_buf = buffer, out_buf = buffer_create out out_len\<rparr> of
           (r, s) \<Rightarrow> (r, in_buf s, Some (out_buf s))))"


subsection \<open>Notions used in the statements and proofs\<close>

text \<open>
  The arena after an aligned allocation of \<open>n\<close> bytes that succeeded, and the test that
  \<open>c\<close> more bytes after the offset of an arena stay within \<open>b\<close>.
\<close>

definition alloc_to :: "arena \<Rightarrow> nat \<Rightarrow> arena" where
  "alloc_to a n = a\<lparr>a_offset := a_offset a + padding (a_ptr a + a_offset a) + n\<rparr>"

definition within :: "arena \<Rightarrow> nat \<Rightarrow> nat \<Rightarrow> bool" where
  "within a c b = (a_offset a + c \<le> b)"

text \<open>
  A sample layout that instantiates \<open>sizeof\<close> in closed statements: 4 bytes for
  \<^verbatim>\<open>size_t\<close> and 48 bytes for every node structure.
\<close>

fun sample_sizeof :: "ctype \<Rightarrow> nat" where
  "sample_sizeof Size_t = 4"
| "sample_sizeof _ = 48"

text \<open>
  The kinds of the wrappers as the specification names them: the wrapper letters are
  \<open>a, s, c, t, d, v, j, n, l, u\<close> and the wrapper of a letter is the one named by its
  capital. This table follows the words of the specification, not the \<^verbatim>\<open>switch\<close> of the
  source; \<open>wrapper_kinds\<close> lists the kinds of the letters of a prefix, the outermost first.
\<close>

definition wrapper_kind_table :: "(char \<times> PolicyNodeType) list" where
  "wrapper_kind_table =
     [(CHR ''a'', TOKEN_A), (CHR ''s'', TOKEN_S), (CHR ''c'', TOKEN_C), (CHR ''t'', TOKEN_T),
      (CHR ''d'', TOKEN_D), (CHR ''v'', TOKEN_V), (CHR ''j'', TOKEN_J), (CHR ''n'', TOKEN_N),
      (CHR ''l'', TOKEN_L), (CHR ''u'', TOKEN_U)]"

definition wrapper_kinds :: "char list \<Rightarrow> PolicyNodeType list" where
  "wrapper_kinds ws =
     map (\<lambda>c. case map_of wrapper_kind_table c of Some t \<Rightarrow> t | None \<Rightarrow> TOKEN_INVALID) ws"

text \<open>
  The descent from a root through a chain of wrapper nodes of given kinds: each node of the
  chain is a \<^verbatim>\<open>policy_node_with_script_t\<close> of the expected kind whose flags are those that
  the wrapper loop computes from its \<^verbatim>\<open>script\<close>; the result is the \<^verbatim>\<open>script\<close> of the
  innermost one.
\<close>

fun unwrap_chain :: "PolicyNodeType list \<Rightarrow> policy_node \<Rightarrow> policy_node option" where
  "unwrap_chain [] node = Some node"
| "unwrap_chain (w # ws) (Node_With_Script t f script) =
     (if t = w \<and> wrapper_flags w (flags script) = Ok f then unwrap_chain ws script else None)"
| "unwrap_chain (w # ws) _ = None"

text \<open>
  The structure when eight derivation steps of the origin \<^verbatim>\<open>[deadbeef/44'/0'/0'/0/1/2/3/4\<close>
  have been read: the array \<^verbatim>\<open>master_key_derivation\<close> is full.
\<close>

definition eight_steps_read :: policy_map_key_info where
  "eight_steps_read =
     \<lparr>master_key_derivation = [0x8000002C, 0x80000000, 0x80000000, 0, 1, 2, 3, 4],
      master_key_derivation_len = 8,
      master_key_fingerprint = [0xde, 0xad, 0xbe, 0xef], has_key_origin = True,
      has_wildcard = False, ext_pubkey = []\<rparr>"

text \<open>
  One layout of the structure, for closed statements: \<^verbatim>\<open>master_key_fingerprint\<close> directly
  after the array, on a little-endian machine. The store at index \<^verbatim>\<open>MAX_BIP32_PATH_STEPS\<close>
  then lands on the four bytes of the fingerprint. The loop stores at no index beyond that
  one, so the other indices are left without effect.
\<close>

definition store_over_fingerprint :: past_end_store where
  "store_over_fingerprint i step out =
     (if i = MAX_BIP32_PATH_STEPS
      then out\<lparr>master_key_fingerprint :=
                 [ucast step, ucast (drop_bit 8 step), ucast (drop_bit 16 step),
                  ucast (drop_bit 24 step)]\<rparr>
      else out)"

text \<open>
  The header of the first scenario of the specification: type 2, the name \<open>wal\<close>, the
  policy \<open>pkh(@0)\<close>, one key, and a Merkle root of 32 zero bytes.
\<close>

definition wal_header :: "8 word list" where
  "wal_header =
     [2, 3, 0x77, 0x61, 0x6c, 7, 0x70, 0x6b, 0x68, 0x28, 0x40, 0x30, 0x29, 1] @ replicate 32 0"

definition wal_header_decoded :: policy_map_wallet_header where
  "wal_header_decoded =
     \<lparr>h_type = 2, h_name_len = 3, h_name = [0x77, 0x61, 0x6c], h_policy_map_len = 7,
      h_policy_map = [0x70, 0x6b, 0x68, 0x28, 0x40, 0x30, 0x29], h_n_keys = 1,
      h_keys_info_merkle_root = replicate 32 0\<rparr>"

text \<open>
  Two properties of a parser, for the proof that \<^verbatim>\<open>parse_script\<close> returns: it never
  lengthens the unread input and does not exceed its bound on an input shorter than \<open>f\<close>;
  it shortens the unread input whenever it succeeds.
\<close>

definition bounded :: "nat \<Rightarrow> 'a parser \<Rightarrow> bool" where
  "bounded f m =
     (\<forall>s r s'. m s = (r, s') \<longrightarrow>
        length (in_buf s') \<le> length (in_buf s) \<and> (length (in_buf s) < f \<longrightarrow> r \<noteq> NoFuel))"

definition consuming :: "'a parser \<Rightarrow> bool" where
  "consuming m = (\<forall>s x s'. m s = (Ok x, s') \<longrightarrow> length (in_buf s') < length (in_buf s))"

section \<open>Properties\<close>

subsection \<open>Evaluation\<close>

lemma padding_le: "padding x \<le> 3"
  by (simp add: padding_def) presburger

lemma buffer_alloc_within:
  "within a (3 + n) (a_size a) \<Longrightarrow> buffer_alloc a n True = Some (alloc_to a n)"
  using padding_le [of "a_ptr a + a_offset a"]
  by (simp add: buffer_alloc_def within_def alloc_to_def Let_def)

lemma within_alloc_to:
  "within a (3 + n + c) b \<Longrightarrow> within (alloc_to a n) c b"
  using padding_le [of "a_ptr a + a_offset a"]
  by (simp add: within_def alloc_to_def)

lemma alloc_to_fields [simp]:
  "a_size (alloc_to a n) = a_size a" "a_ptr (alloc_to a n) = a_ptr a"
  by (simp_all add: alloc_to_def)

lemma within_create: "within (buffer_create out len) c b = (c \<le> b)"
  by (simp add: within_def buffer_create_def)

lemma a_size_create [simp]: "a_size (buffer_create out len) = len"
  by (simp add: buffer_create_def)

lemmas arena_eval = buffer_alloc_within within_alloc_to within_create

lemmas lex_eval = is_digit_def is_alpha_def is_alphanumeric_def is_lowercase_hex_def
  lowercase_hex_to_int_def consume_character_def buffer_peek_def buffer_peek_n_def
  buffer_seek_cur_def buffer_read_u8_def buffer_read_bytes_def buffer_can_read_def
  parse_token_def MAX_TOKEN_LENGTH_def KNOWN_TOKENS_def parse_unsigned_decimal_def
  parse_key_index_def is_wrapper_character_def is_valid_miniscript_wrapper_def
  wrapper_type_def lookahead_wrappers.simps

lemmas parser_eval = bnd_def ret_def fail_def lift_def require_def expect_character_def
  alloc_node_def align_cur_def read_decimal_def read_key_index_def read_hex_hash_def
  buffer_read_hex_hash_def parse_wrapper_prefix_def parse_unwrapped_def parse_script_body_def
  parse_node_def parse_constant_def parse_sh_wsh_def parse_hash_256_def parse_hash_160_def
  parse_andor_def parse_script2_def parse_thresh_def parse_key_node_def parse_tr_def
  parse_older_after_def parse_multi_def sortedmulti_context_error_def
  CONTEXT_WITHIN_SH_def CONTEXT_WITHIN_WSH_def MAX_POLICY_MAP_COSIGNERS_def
  parse_child_scripts.simps multi_loop.simps parse_policy_map_def

lemmas bnd_eval = bnd_def ret_def fail_def lift_def require_def expect_character_def
  alloc_node_def align_cur_def read_decimal_def

subsection \<open>Unsigned decimals\<close>

text \<open>
  C6. The claim is that \<^verbatim>\<open>parse_unsigned_decimal\<close> fails on every digit sequence whose value
  exceeds the largest \<^verbatim>\<open>size_t\<close>. The test \<^verbatim>\<open>10 * result + next_digit < result\<close> misses
  a product that wraps to a value not below \<open>result\<close>: on the eleven digits of
  \<open>10000000000\<close>, whose value is above \<open>2^32 - 1\<close>, the function succeeds and returns
  \<open>1410065408\<close>, which is \<open>10^10 mod 2^32\<close>.
\<close>

theorem parse_unsigned_decimal_wraps:
  "parse_unsigned_decimal ''10000000000'' = (Ok 1410065408, [])"
  by (simp add: parse_unsigned_decimal_def is_digit_def)

text \<open>
  The miss does not depend on the width: run at 64 bits, the loop reads the twenty digits
  of \<open>50000000000000000000\<close>, above \<open>2^64 - 1\<close>, to the end in the same way.
\<close>

lemma parse_unsigned_decimal_loop_wraps_64:
  "parse_unsigned_decimal_loop ''50000000000000000000'' (0 :: 64 word) 0 =
     (Some (13106511852580896768, 20), [])"
  by (simp add: is_digit_def)

subsection \<open>Fragments accepted against their claims\<close>

text \<open>
  C1. The claim is that every accepted \<^verbatim>\<open>thresh\<close> node has \<open>1 \<le> k \<le> n\<close>. The case of
  \<^verbatim>\<open>thresh\<close> tests \<open>k \<ge> 1\<close> only (the case of \<^verbatim>\<open>multi\<close> tests \<open>k \<le> n\<close> as well): the
  body \<open>thresh(2,pk(@0))\<close> is accepted with \<open>k = 2\<close> and \<open>n = 1\<close>, whenever the arena has
  room for its nodes.
\<close>

theorem thresh_accepts_k_above_n:
  assumes "out mod 4 = 0"
      and "sizeof Policy_node_thresh_t + sizeof Policy_node_scriptlist_t +
           sizeof Policy_node_with_key_t + 12 \<le> out_len"
  shows "fst (parse_policy_map sizeof ''thresh(2,pk(@0))'' out out_len) =
           Ok (Node_Thresh TOKEN_THRESH
                 (Miniscript MINISCRIPT_TYPE_B False True False False False) 2 1
                 [Node_With_Key TOKEN_PK
                    (Miniscript MINISCRIPT_TYPE_B False True True True True) 0])"
  using assms by (simp add: parser_eval lex_eval arena_eval)

theorem thresh_accepts_k_above_n_witness:
  "(0::nat) mod 4 = 0 \<and>
   sample_sizeof Policy_node_thresh_t + sample_sizeof Policy_node_scriptlist_t +
     sample_sizeof Policy_node_with_key_t + 12 \<le> (1024::nat) \<and>
   fst (parse_policy_map sample_sizeof ''thresh(2,pk(@0))'' 0 1024) =
     Ok (Node_Thresh TOKEN_THRESH
           (Miniscript MINISCRIPT_TYPE_B False True False False False) 2 1
           [Node_With_Key TOKEN_PK
              (Miniscript MINISCRIPT_TYPE_B False True True True True) 0])"
  using thresh_accepts_k_above_n [of 0 sample_sizeof 1024] by simp

text \<open>
  C2. The claim is that \<^verbatim>\<open>tr\<close> is accepted at depth 0 only, so that \<open>sh(tr(@0))\<close> fails.
  The test of the source is \<^verbatim>\<open>depth > 1\<close>, under the message "tr can only be top-level":
  at depth 1 the token passes, and \<open>sh(tr(@0))\<close> is accepted.
\<close>

theorem tr_accepted_under_sh:
  assumes "out mod 4 = 0"
      and "sizeof Policy_node_with_script_t + sizeof Policy_node_with_key_t + 9 \<le> out_len"
  shows "fst (parse_policy_map sizeof ''sh(tr(@0))'' out out_len) =
           Ok (Node_With_Script TOKEN_SH Not_Miniscript
                 (Node_With_Key TOKEN_TR Not_Miniscript 0))"
  using assms by (simp add: parser_eval lex_eval arena_eval)

theorem tr_accepted_under_sh_witness:
  "(0::nat) mod 4 = 0 \<and>
   sample_sizeof Policy_node_with_script_t + sample_sizeof Policy_node_with_key_t + 9
     \<le> (1024::nat) \<and>
   fst (parse_policy_map sample_sizeof ''sh(tr(@0))'' 0 1024) =
     Ok (Node_With_Script TOKEN_SH Not_Miniscript (Node_With_Key TOKEN_TR Not_Miniscript 0))"
  using tr_accepted_under_sh [of 0 sample_sizeof 1024] by simp

text \<open>
  C4. The claim is that \<^verbatim>\<open>older(n)\<close> is accepted exactly when the decimal \<open>n\<close> satisfies
  \<open>1 \<le> n < 2^31\<close>. The range test of the source is the one of the claim, but it reads the
  value that \<^verbatim>\<open>parse_unsigned_decimal\<close> returns: \<open>older(10000000000)\<close> is accepted, with
  \<open>n = 1410065408\<close>.
\<close>

theorem older_accepts_wrapped_decimal:
  assumes "out mod 4 = 0"
      and "sizeof Policy_node_with_uint32_t + 3 \<le> out_len"
  shows "fst (parse_policy_map sizeof ''older(10000000000)'' out out_len) =
           Ok (Node_With_Uint32 TOKEN_OLDER
                 (Miniscript MINISCRIPT_TYPE_B True False False False False) 1410065408)"
  using assms by (simp add: parser_eval lex_eval arena_eval)

theorem older_accepts_wrapped_decimal_witness:
  "(0::nat) mod 4 = 0 \<and> sample_sizeof Policy_node_with_uint32_t + 3 \<le> (1024::nat) \<and>
   fst (parse_policy_map sample_sizeof ''older(10000000000)'' 0 1024) =
     Ok (Node_With_Uint32 TOKEN_OLDER
           (Miniscript MINISCRIPT_TYPE_B True False False False False) 1410065408)"
  using older_accepts_wrapped_decimal [of 0 sample_sizeof 1024] by simp


subsection \<open>Alignment of the output region\<close>

text \<open>
  C9. \<^verbatim>\<open>parse_policy_map\<close> returns an error, without reading the input and without creating
  the arena, whenever the output pointer is not a multiple of 4; it creates the arena and
  parses only when the pointer is aligned.
\<close>

theorem unaligned_output_rejected:
  "(out mod 4 \<noteq> 0 \<longrightarrow>
      parse_policy_map sizeof buffer out out_len = (Err ''Unaligned pointer'', buffer, None)) \<and>
   (snd (snd (parse_policy_map sizeof buffer out out_len)) \<noteq> None \<longrightarrow> out mod 4 = 0)"
  by (simp add: parse_policy_map_def split: prod.splits)

theorem unaligned_output_rejected_witness:
  "(2::nat) mod 4 \<noteq> 0 \<and>
   parse_policy_map sample_sizeof ''pk(@0)'' 2 1024 = (Err ''Unaligned pointer'', ''pk(@0)'', None)"
  using unaligned_output_rejected [of 2 sample_sizeof "''pk(@0)''" 1024] by simp

subsection \<open>The context of \<^verbatim>\<open>sortedmulti\<close>\<close>

lemma parse_script_sortedmulti:
  "parse_script sizeof (Suc fuel) depth context_flags
     \<lparr>in_buf = ''sortedmulti('' @ rest, out_buf = a\<rparr> =
   bnd (parse_multi sizeof context_flags TOKEN_SORTEDMULTI) (\<lambda>parsed_node.
   bnd (expect_character (CHR '')'') ''Expected )'') (\<lambda>_.
   bnd (\<lambda>s1. if depth = 0 \<and> buffer_can_read (in_buf s1) 1
              then (Err ''Input buffer too long'', s1) else (Ok (), s1)) (\<lambda>_.
   ret parsed_node))) \<lparr>in_buf = rest, out_buf = a\<rparr>"
  by (simp add: parse_script_body_def parse_wrapper_prefix_def parse_unwrapped_def
        parse_node_def lex_eval bnd_def ret_def lift_def expect_character_def
      split: prod.splits res.splits)

lemma parse_script_sh:
  "parse_script sizeof (Suc fuel) 0 context_flags
     \<lparr>in_buf = ''sh('' @ rest, out_buf = a\<rparr> =
   bnd (alloc_node (sizeof Policy_node_with_script_t)) (\<lambda>_.
   bnd align_cur (\<lambda>_.
   bnd (parse_script sizeof fuel 1 CONTEXT_WITHIN_SH) (\<lambda>script.
   bnd (expect_character (CHR '')'') ''Expected )'') (\<lambda>_.
   bnd (\<lambda>s1. if buffer_can_read (in_buf s1) 1
              then (Err ''Input buffer too long'', s1) else (Ok (), s1)) (\<lambda>_.
   ret (Node_With_Script TOKEN_SH Not_Miniscript script))))))
     \<lparr>in_buf = rest, out_buf = a\<rparr>"
  by (simp add: parse_script_body_def parse_wrapper_prefix_def parse_unwrapped_def
        parse_node_def parse_sh_wsh_def lex_eval bnd_def ret_def lift_def expect_character_def
        require_def
      split: prod.splits res.splits)

lemma parse_script_wsh:
  "parse_script sizeof (Suc fuel) 0 context_flags
     \<lparr>in_buf = ''wsh('' @ rest, out_buf = a\<rparr> =
   bnd (alloc_node (sizeof Policy_node_with_script_t)) (\<lambda>_.
   bnd align_cur (\<lambda>_.
   bnd (parse_script sizeof fuel 1 CONTEXT_WITHIN_WSH) (\<lambda>script.
   bnd (expect_character (CHR '')'') ''Expected )'') (\<lambda>_.
   bnd (\<lambda>s1. if buffer_can_read (in_buf s1) 1
              then (Err ''Input buffer too long'', s1) else (Ok (), s1)) (\<lambda>_.
   ret (Node_With_Script TOKEN_WSH Not_Miniscript script))))))
     \<lparr>in_buf = rest, out_buf = a\<rparr>"
  by (simp add: parse_script_body_def parse_wrapper_prefix_def parse_unwrapped_def
        parse_node_def parse_sh_wsh_def lex_eval bnd_def ret_def lift_def expect_character_def
        require_def
      split: prod.splits res.splits)

lemma multi_loop_errors:
  "multi_loop sz keys s = (Err e, s') \<Longrightarrow>
   e \<in> {''Expected ,'', ''Error parsing key index'', ''Out of memory''}"
proof (induction sz keys s rule: multi_loop.induct)
  case (1 sz keys s)
  then show ?case
    by (subst (asm) (2) multi_loop.simps)
       (auto split: if_splits prod.splits bool.splits option.splits)
qed

lemma parse_multi_flags:
  "\<not> sortedmulti_context_error context_flags \<Longrightarrow>
   parse_multi sizeof context_flags token = parse_multi sizeof 0 token"
  by (simp add: parse_multi_def sortedmulti_context_error_def)

lemma parse_multi_both:
  "sortedmulti_context_error context_flags \<Longrightarrow>
   fst (parse_multi sizeof context_flags TOKEN_SORTEDMULTI s) =
     (if buffer_alloc (out_buf s) (sizeof Policy_node_multisig_t) True = None
      then Err ''Out of memory''
      else Err ''sortedmulti can only be directly under sh or wsh'')"
  by (simp add: parse_multi_def bnd_eval split: option.splits)

lemma parse_multi_not_context:
  "\<not> sortedmulti_context_error context_flags \<Longrightarrow>
   fst (parse_multi sizeof context_flags token s) \<noteq>
     Err ''sortedmulti can only be directly under sh or wsh''"
  by (auto simp: parse_multi_def bnd_eval Let_def
      split: option.splits prod.splits res.splits if_splits
      dest!: multi_loop_errors)

lemma sortedmulti_both_flags:
  assumes "sortedmulti_context_error context_flags"
  shows "fst (parse_script sizeof (Suc fuel) depth context_flags
               \<lparr>in_buf = ''sortedmulti('' @ rest, out_buf = a\<rparr>) =
         (if buffer_alloc a (sizeof Policy_node_multisig_t) True = None
          then Err ''Out of memory''
          else Err ''sortedmulti can only be directly under sh or wsh'')"
  using parse_multi_both [OF assms, of sizeof "\<lparr>in_buf = rest, out_buf = a\<rparr>"]
  unfolding parse_script_sortedmulti
  by (auto simp: bnd_def split: prod.splits res.splits if_splits)

lemma sortedmulti_one_flag:
  assumes "\<not> sortedmulti_context_error context_flags"
  shows "parse_script sizeof (Suc fuel) depth context_flags
           \<lparr>in_buf = ''sortedmulti('' @ rest, out_buf = a\<rparr> =
         parse_script sizeof (Suc fuel) depth 0
           \<lparr>in_buf = ''sortedmulti('' @ rest, out_buf = a\<rparr>"
    and "fst (parse_script sizeof (Suc fuel) depth context_flags
               \<lparr>in_buf = ''sortedmulti('' @ rest, out_buf = a\<rparr>) \<noteq>
         Err ''sortedmulti can only be directly under sh or wsh''"
proof -
  show "parse_script sizeof (Suc fuel) depth context_flags
           \<lparr>in_buf = ''sortedmulti('' @ rest, out_buf = a\<rparr> =
         parse_script sizeof (Suc fuel) depth 0
           \<lparr>in_buf = ''sortedmulti('' @ rest, out_buf = a\<rparr>"
    unfolding parse_script_sortedmulti parse_multi_flags [OF assms] ..
  show "fst (parse_script sizeof (Suc fuel) depth context_flags
               \<lparr>in_buf = ''sortedmulti('' @ rest, out_buf = a\<rparr>) \<noteq>
         Err ''sortedmulti can only be directly under sh or wsh''"
    using parse_multi_not_context [OF assms, of sizeof TOKEN_SORTEDMULTI
            "\<lparr>in_buf = rest, out_buf = a\<rparr>"]
    unfolding parse_script_sortedmulti
    by (auto simp: bnd_def ret_def expect_character_def
             split: prod.splits res.splits if_splits bool.splits)
qed

lemma sortedmulti_context_error_flag [simp]:
  "\<not> sortedmulti_context_error 0"
  "\<not> sortedmulti_context_error CONTEXT_WITHIN_SH"
  "\<not> sortedmulti_context_error CONTEXT_WITHIN_WSH"
  by (simp_all add: sortedmulti_context_error_def CONTEXT_WITHIN_SH_def CONTEXT_WITHIN_WSH_def)

lemma sortedmulti_under_sh_wsh:
  "fst (parse_script sizeof (Suc (Suc fuel)) 0 0
          \<lparr>in_buf = ''sh(sortedmulti('' @ rest, out_buf = a\<rparr>) \<noteq>
     Err ''sortedmulti can only be directly under sh or wsh''"
  "fst (parse_script sizeof (Suc (Suc fuel)) 0 0
          \<lparr>in_buf = ''wsh(sortedmulti('' @ rest, out_buf = a\<rparr>) \<noteq>
     Err ''sortedmulti can only be directly under sh or wsh''"
proof -
  have sh: "parse_script sizeof (Suc fuel) (Suc 0) CONTEXT_WITHIN_SH
              \<lparr>in_buf = ''sortedmulti('' @ rest, out_buf = b\<rparr> \<noteq>
            (Err ''sortedmulti can only be directly under sh or wsh'', t)" for b t
    using sortedmulti_one_flag(2) [of CONTEXT_WITHIN_SH sizeof fuel "Suc 0" rest b]
    by (auto simp del: parse_script.simps append.simps)
  have wsh: "parse_script sizeof (Suc fuel) (Suc 0) CONTEXT_WITHIN_WSH
               \<lparr>in_buf = ''sortedmulti('' @ rest, out_buf = b\<rparr> \<noteq>
             (Err ''sortedmulti can only be directly under sh or wsh'', t)" for b t
    using sortedmulti_one_flag(2) [of CONTEXT_WITHIN_WSH sizeof fuel "Suc 0" rest b]
    by (auto simp del: parse_script.simps append.simps)
  have e: "''sh(sortedmulti('' @ rest = ''sh('' @ ''sortedmulti('' @ rest"
          "''wsh(sortedmulti('' @ rest = ''wsh('' @ ''sortedmulti('' @ rest"
    by simp_all
  show "fst (parse_script sizeof (Suc (Suc fuel)) 0 0
          \<lparr>in_buf = ''sh(sortedmulti('' @ rest, out_buf = a\<rparr>) \<noteq>
     Err ''sortedmulti can only be directly under sh or wsh''"
    unfolding e parse_script_sh
    by (auto simp: sh bnd_def ret_def expect_character_def alloc_node_def align_cur_def
             simp del: parse_script.simps append.simps
             split: prod.splits res.splits if_splits bool.splits option.splits)
  show "fst (parse_script sizeof (Suc (Suc fuel)) 0 0
          \<lparr>in_buf = ''wsh(sortedmulti('' @ rest, out_buf = a\<rparr>) \<noteq>
     Err ''sortedmulti can only be directly under sh or wsh''"
    unfolding e parse_script_wsh
    by (auto simp: wsh bnd_def ret_def expect_character_def alloc_node_def align_cur_def
             simp del: parse_script.simps append.simps
             split: prod.splits res.splits if_splits bool.splits option.splits)
qed

lemma parse_policy_map_fuel:
  "fst (parse_policy_map sizeof buffer out out_len) =
     (if out mod 4 \<noteq> 0 then Err ''Unaligned pointer''
      else fst (parse_script sizeof (Suc (length buffer)) 0 0
                  \<lparr>in_buf = buffer, out_buf = buffer_create out out_len\<rparr>))"
  by (simp add: parse_policy_map_def split: prod.splits del: parse_script.simps)

lemma sortedmulti_policy_map:
  "fst (parse_policy_map sizeof (''sortedmulti('' @ rest) out out_len) \<noteq>
     Err ''sortedmulti can only be directly under sh or wsh''"
  "fst (parse_policy_map sizeof (''sh(sortedmulti('' @ rest) out out_len) \<noteq>
     Err ''sortedmulti can only be directly under sh or wsh''"
  "fst (parse_policy_map sizeof (''wsh(sortedmulti('' @ rest) out out_len) \<noteq>
     Err ''sortedmulti can only be directly under sh or wsh''"
proof -
  have l: "length (''sh(sortedmulti('' @ rest) = Suc (14 + length rest)"
          "length (''wsh(sortedmulti('' @ rest) = Suc (15 + length rest)"
    by simp_all
  show "fst (parse_policy_map sizeof (''sortedmulti('' @ rest) out out_len) \<noteq>
     Err ''sortedmulti can only be directly under sh or wsh''"
    unfolding parse_policy_map_fuel
    using sortedmulti_one_flag(2) [of 0 sizeof "length (''sortedmulti('' @ rest)" 0 rest]
    by (simp del: parse_script.simps append.simps)
  show "fst (parse_policy_map sizeof (''sh(sortedmulti('' @ rest) out out_len) \<noteq>
     Err ''sortedmulti can only be directly under sh or wsh''"
    unfolding parse_policy_map_fuel l
    using sortedmulti_under_sh_wsh(1) [of sizeof "14 + length rest" rest]
    by (simp del: parse_script.simps append.simps)
  show "fst (parse_policy_map sizeof (''wsh(sortedmulti('' @ rest) out out_len) \<noteq>
     Err ''sortedmulti can only be directly under sh or wsh''"
    unfolding parse_policy_map_fuel l
    using sortedmulti_under_sh_wsh(2) [of sizeof "15 + length rest" rest]
    by (simp del: parse_script.simps append.simps)
qed

text \<open>
  C10. A \<^verbatim>\<open>sortedmulti\<close> token, whatever follows its opening parenthesis, at any depth,
  under any context flags and in any arena: \<^verbatim>\<open>parse_script\<close> returns the context error
  exactly when both \<^verbatim>\<open>CONTEXT_WITHIN_SH\<close> and \<^verbatim>\<open>CONTEXT_WITHIN_WSH\<close> are set and the
  allocation of the node, which comes before the test, has succeeded; in every other case
  its result is the one under no context flag at all. Whatever follows the parenthesis,
  \<open>sortedmulti(...)\<close>, \<open>sh(sortedmulti(...))\<close> and \<open>wsh(sortedmulti(...))\<close> never end in the
  context error, neither through \<^verbatim>\<open>parse_script\<close> at depth 0 nor through
  \<^verbatim>\<open>parse_policy_map\<close>. In particular the bare body \<open>sortedmulti(1,@0)\<close>,
  \<open>sh(sortedmulti(1,@0))\<close> and \<open>wsh(sortedmulti(1,@0))\<close> are accepted, whenever the arena
  has room for the nodes.
\<close>

theorem sortedmulti_rejected_iff_both_flags:
  assumes "out mod 4 = 0"
      and "sizeof Policy_node_with_script_t + sizeof Policy_node_multisig_t + sizeof Size_t + 15
             \<le> out_len"
  shows "fst (parse_script sizeof (Suc fuel) depth context_flags
               \<lparr>in_buf = ''sortedmulti(1,@0)'', out_buf = buffer_create out out_len\<rparr>) =
           (if context_flags AND CONTEXT_WITHIN_SH \<noteq> 0 \<and>
               context_flags AND CONTEXT_WITHIN_WSH \<noteq> 0
            then Err ''sortedmulti can only be directly under sh or wsh''
            else Ok (Node_Multisig TOKEN_SORTEDMULTI Not_Miniscript 1 1 [0])) \<and>
         fst (parse_policy_map sizeof ''sortedmulti(1,@0)'' out out_len) =
           Ok (Node_Multisig TOKEN_SORTEDMULTI Not_Miniscript 1 1 [0]) \<and>
         fst (parse_policy_map sizeof ''sh(sortedmulti(1,@0))'' out out_len) =
           Ok (Node_With_Script TOKEN_SH Not_Miniscript
                 (Node_Multisig TOKEN_SORTEDMULTI Not_Miniscript 1 1 [0])) \<and>
         fst (parse_policy_map sizeof ''wsh(sortedmulti(1,@0))'' out out_len) =
           Ok (Node_With_Script TOKEN_WSH Not_Miniscript
                 (Node_Multisig TOKEN_SORTEDMULTI Not_Miniscript 1 1 [0])) \<and>
         (\<forall>fuel depth context_flags rest a.
            (fst (parse_script sizeof (Suc fuel) depth context_flags
                    \<lparr>in_buf = ''sortedmulti('' @ rest, out_buf = a\<rparr>) =
             Err ''sortedmulti can only be directly under sh or wsh'') =
            (context_flags AND CONTEXT_WITHIN_SH \<noteq> 0 \<and>
             context_flags AND CONTEXT_WITHIN_WSH \<noteq> 0 \<and>
             buffer_alloc a (sizeof Policy_node_multisig_t) True \<noteq> None)) \<and>
         (\<forall>fuel depth context_flags rest a.
            fst (parse_script sizeof (Suc fuel) depth context_flags
                   \<lparr>in_buf = ''sortedmulti('' @ rest, out_buf = a\<rparr>) =
            (if context_flags AND CONTEXT_WITHIN_SH \<noteq> 0 \<and>
                context_flags AND CONTEXT_WITHIN_WSH \<noteq> 0 \<and>
                buffer_alloc a (sizeof Policy_node_multisig_t) True \<noteq> None
             then Err ''sortedmulti can only be directly under sh or wsh''
             else fst (parse_script sizeof (Suc fuel) depth 0
                         \<lparr>in_buf = ''sortedmulti('' @ rest, out_buf = a\<rparr>))) \<and>
         (\<forall>fuel rest a.
            fst (parse_script sizeof (Suc (Suc fuel)) 0 0
                   \<lparr>in_buf = ''sh(sortedmulti('' @ rest, out_buf = a\<rparr>) \<noteq>
              Err ''sortedmulti can only be directly under sh or wsh'' \<and>
            fst (parse_script sizeof (Suc (Suc fuel)) 0 0
                   \<lparr>in_buf = ''wsh(sortedmulti('' @ rest, out_buf = a\<rparr>) \<noteq>
              Err ''sortedmulti can only be directly under sh or wsh'') \<and>
         (\<forall>rest out' out_len'.
            fst (parse_policy_map sizeof (''sortedmulti('' @ rest) out' out_len') \<noteq>
              Err ''sortedmulti can only be directly under sh or wsh'' \<and>
            fst (parse_policy_map sizeof (''sh(sortedmulti('' @ rest) out' out_len') \<noteq>
              Err ''sortedmulti can only be directly under sh or wsh'' \<and>
            fst (parse_policy_map sizeof (''wsh(sortedmulti('' @ rest) out' out_len') \<noteq>
              Err ''sortedmulti can only be directly under sh or wsh'')"
proof (intro conjI allI)
  show "fst (parse_script sizeof (Suc fuel) depth context_flags
               \<lparr>in_buf = ''sortedmulti(1,@0)'', out_buf = buffer_create out out_len\<rparr>) =
           (if context_flags AND CONTEXT_WITHIN_SH \<noteq> 0 \<and>
               context_flags AND CONTEXT_WITHIN_WSH \<noteq> 0
            then Err ''sortedmulti can only be directly under sh or wsh''
            else Ok (Node_Multisig TOKEN_SORTEDMULTI Not_Miniscript 1 1 [0]))"
    using assms by (simp add: parser_eval lex_eval arena_eval)
  show "fst (parse_policy_map sizeof ''sortedmulti(1,@0)'' out out_len) =
           Ok (Node_Multisig TOKEN_SORTEDMULTI Not_Miniscript 1 1 [0])"
    using assms by (simp add: parser_eval lex_eval arena_eval)
  show "fst (parse_policy_map sizeof ''sh(sortedmulti(1,@0))'' out out_len) =
           Ok (Node_With_Script TOKEN_SH Not_Miniscript
                 (Node_Multisig TOKEN_SORTEDMULTI Not_Miniscript 1 1 [0]))"
    using assms by (simp add: parser_eval lex_eval arena_eval)
  show "fst (parse_policy_map sizeof ''wsh(sortedmulti(1,@0))'' out out_len) =
           Ok (Node_With_Script TOKEN_WSH Not_Miniscript
                 (Node_Multisig TOKEN_SORTEDMULTI Not_Miniscript 1 1 [0]))"
    using assms by (simp add: parser_eval lex_eval arena_eval)
next
  fix fuel depth context_flags rest a
  show "(fst (parse_script sizeof (Suc fuel) depth context_flags
                \<lparr>in_buf = ''sortedmulti('' @ rest, out_buf = a\<rparr>) =
         Err ''sortedmulti can only be directly under sh or wsh'') =
        (context_flags AND CONTEXT_WITHIN_SH \<noteq> 0 \<and>
         context_flags AND CONTEXT_WITHIN_WSH \<noteq> 0 \<and>
         buffer_alloc a (sizeof Policy_node_multisig_t) True \<noteq> None)"
  proof (cases "sortedmulti_context_error context_flags")
    case True
    from sortedmulti_both_flags [OF True, of sizeof fuel depth rest a] True
    show ?thesis
      by (auto simp: sortedmulti_context_error_def simp del: parse_script.simps append.simps)
  next
    case False
    from sortedmulti_one_flag(2) [OF False, of sizeof fuel depth rest a] False
    show ?thesis
      by (auto simp: sortedmulti_context_error_def simp del: parse_script.simps append.simps)
  qed
next
  fix fuel depth context_flags rest a
  show "fst (parse_script sizeof (Suc fuel) depth context_flags
               \<lparr>in_buf = ''sortedmulti('' @ rest, out_buf = a\<rparr>) =
        (if context_flags AND CONTEXT_WITHIN_SH \<noteq> 0 \<and>
            context_flags AND CONTEXT_WITHIN_WSH \<noteq> 0 \<and>
            buffer_alloc a (sizeof Policy_node_multisig_t) True \<noteq> None
         then Err ''sortedmulti can only be directly under sh or wsh''
         else fst (parse_script sizeof (Suc fuel) depth 0
                     \<lparr>in_buf = ''sortedmulti('' @ rest, out_buf = a\<rparr>))"
  proof (cases "sortedmulti_context_error context_flags")
    case True
    have z: "fst (parse_script sizeof (Suc fuel) depth 0
                    \<lparr>in_buf = ''sortedmulti('' @ rest, out_buf = a\<rparr>) = Err ''Out of memory''"
      if "buffer_alloc a (sizeof Policy_node_multisig_t) True = None"
      unfolding parse_script_sortedmulti using that
      by (simp add: parse_multi_def bnd_eval)
    from sortedmulti_both_flags [OF True, of sizeof fuel depth rest a] True z
    show ?thesis
      by (auto simp: sortedmulti_context_error_def simp del: parse_script.simps append.simps)
  next
    case False
    from sortedmulti_one_flag(1) [OF False, of sizeof fuel depth rest a] False
    show ?thesis
      by (auto simp: sortedmulti_context_error_def simp del: parse_script.simps append.simps)
  qed
next
  fix fuel rest a
  show "fst (parse_script sizeof (Suc (Suc fuel)) 0 0
               \<lparr>in_buf = ''sh(sortedmulti('' @ rest, out_buf = a\<rparr>) \<noteq>
          Err ''sortedmulti can only be directly under sh or wsh''"
    by (rule sortedmulti_under_sh_wsh)
  show "fst (parse_script sizeof (Suc (Suc fuel)) 0 0
               \<lparr>in_buf = ''wsh(sortedmulti('' @ rest, out_buf = a\<rparr>) \<noteq>
          Err ''sortedmulti can only be directly under sh or wsh''"
    by (rule sortedmulti_under_sh_wsh)
next
  fix rest out' out_len'
  show "fst (parse_policy_map sizeof (''sortedmulti('' @ rest) out' out_len') \<noteq>
          Err ''sortedmulti can only be directly under sh or wsh''"
    by (rule sortedmulti_policy_map)
  show "fst (parse_policy_map sizeof (''sh(sortedmulti('' @ rest) out' out_len') \<noteq>
          Err ''sortedmulti can only be directly under sh or wsh''"
    by (rule sortedmulti_policy_map)
  show "fst (parse_policy_map sizeof (''wsh(sortedmulti('' @ rest) out' out_len') \<noteq>
          Err ''sortedmulti can only be directly under sh or wsh''"
    by (rule sortedmulti_policy_map)
qed

text \<open>
  At the sample sizes: \<open>sortedmulti(2,@0,@1)\<close> under both flags ends in the context error,
  under \<^verbatim>\<open>CONTEXT_WITHIN_WSH\<close> alone it is parsed as under no flag, and in an arena of 8
  bytes, too small for its node, it ends in "Out of memory" under both flags.
\<close>

theorem sortedmulti_rejected_iff_both_flags_witness:
  "(0::nat) mod 4 = 0 \<and>
   sample_sizeof Policy_node_with_script_t + sample_sizeof Policy_node_multisig_t +
     sample_sizeof Size_t + 15 \<le> (1024::nat) \<and>
   fst (parse_script sample_sizeof (Suc 0) 1 3
          \<lparr>in_buf = ''sortedmulti(1,@0)'', out_buf = buffer_create 0 1024\<rparr>) =
     Err ''sortedmulti can only be directly under sh or wsh'' \<and>
   fst (parse_script sample_sizeof (Suc 0) 1 1
          \<lparr>in_buf = ''sortedmulti(1,@0)'', out_buf = buffer_create 0 1024\<rparr>) =
     Ok (Node_Multisig TOKEN_SORTEDMULTI Not_Miniscript 1 1 [0]) \<and>
   fst (parse_policy_map sample_sizeof ''sh(sortedmulti(1,@0))'' 0 1024) =
     Ok (Node_With_Script TOKEN_SH Not_Miniscript
           (Node_Multisig TOKEN_SORTEDMULTI Not_Miniscript 1 1 [0])) \<and>
   fst (parse_script sample_sizeof (Suc 0) 1 3
          \<lparr>in_buf = ''sortedmulti('' @ ''2,@0,@1)'', out_buf = buffer_create 0 1024\<rparr>) =
     Err ''sortedmulti can only be directly under sh or wsh'' \<and>
   fst (parse_script sample_sizeof (Suc 0) 1 2
          \<lparr>in_buf = ''sortedmulti('' @ ''2,@0,@1)'', out_buf = buffer_create 0 1024\<rparr>) =
     fst (parse_script sample_sizeof (Suc 0) 1 0
          \<lparr>in_buf = ''sortedmulti('' @ ''2,@0,@1)'', out_buf = buffer_create 0 1024\<rparr>) \<and>
   fst (parse_script sample_sizeof (Suc 0) 1 2
          \<lparr>in_buf = ''sortedmulti('' @ ''2,@0,@1)'', out_buf = buffer_create 0 1024\<rparr>) =
     Ok (Node_Multisig TOKEN_SORTEDMULTI Not_Miniscript 2 2 [0, 1]) \<and>
   fst (parse_script sample_sizeof (Suc 0) 1 3
          \<lparr>in_buf = ''sortedmulti('' @ ''2,@0,@1)'', out_buf = buffer_create 0 8\<rparr>) =
     Err ''Out of memory''"
proof -
  have b: "buffer_alloc (buffer_create 0 1024) (sample_sizeof Policy_node_multisig_t) True
             \<noteq> None"
          "buffer_alloc (buffer_create 0 8) (sample_sizeof Policy_node_multisig_t) True = None"
    by (simp_all add: buffer_alloc_def padding_def buffer_create_def)
  have f: "(3::32 word) AND CONTEXT_WITHIN_SH \<noteq> 0" "(3::32 word) AND CONTEXT_WITHIN_WSH \<noteq> 0"
          "(2::32 word) AND CONTEXT_WITHIN_SH = 0" "(1::32 word) AND CONTEXT_WITHIN_WSH = 0"
    by (simp_all add: CONTEXT_WITHIN_SH_def CONTEXT_WITHIN_WSH_def)
  have e: "fst (parse_script sample_sizeof (Suc 0) 1 0
          \<lparr>in_buf = ''sortedmulti('' @ ''2,@0,@1)'', out_buf = buffer_create 0 1024\<rparr>) =
     Ok (Node_Multisig TOKEN_SORTEDMULTI Not_Miniscript 2 2 [0, 1])"
    by (simp add: parser_eval lex_eval buffer_alloc_def padding_def buffer_create_def)
  have o: "fst (parse_script sample_sizeof (Suc 0) 1 0
          \<lparr>in_buf = ''sortedmulti('' @ ''2,@0,@1)'', out_buf = buffer_create 0 8\<rparr>) =
     Err ''Out of memory''"
    by (simp add: parser_eval lex_eval buffer_alloc_def padding_def buffer_create_def)
  have m: "(0::nat) mod 4 = 0" by simp
  have r: "sample_sizeof Policy_node_with_script_t + sample_sizeof Policy_node_multisig_t +
     sample_sizeof Size_t + 15 \<le> (1024::nat)" by simp
  note t3 = sortedmulti_rejected_iff_both_flags [OF m r, of 0 1 3]
  note t1 = sortedmulti_rejected_iff_both_flags [OF m r, of 0 1 1]
  from t3 f have c1: "fst (parse_script sample_sizeof (Suc 0) 1 3
          \<lparr>in_buf = ''sortedmulti(1,@0)'', out_buf = buffer_create 0 1024\<rparr>) =
     Err ''sortedmulti can only be directly under sh or wsh''"
    by presburger
  from t1 f have c2: "fst (parse_script sample_sizeof (Suc 0) 1 1
          \<lparr>in_buf = ''sortedmulti(1,@0)'', out_buf = buffer_create 0 1024\<rparr>) =
     Ok (Node_Multisig TOKEN_SORTEDMULTI Not_Miniscript 1 1 [0])"
    by presburger
  from t3 have c3: "fst (parse_policy_map sample_sizeof ''sh(sortedmulti(1,@0))'' 0 1024) =
     Ok (Node_With_Script TOKEN_SH Not_Miniscript
           (Node_Multisig TOKEN_SORTEDMULTI Not_Miniscript 1 1 [0]))"
    by blast
  from t3 have g: "\<forall>fuel depth context_flags rest a.
            fst (parse_script sample_sizeof (Suc fuel) depth context_flags
                   \<lparr>in_buf = ''sortedmulti('' @ rest, out_buf = a\<rparr>) =
            (if context_flags AND CONTEXT_WITHIN_SH \<noteq> 0 \<and>
                context_flags AND CONTEXT_WITHIN_WSH \<noteq> 0 \<and>
                buffer_alloc a (sample_sizeof Policy_node_multisig_t) True \<noteq> None
             then Err ''sortedmulti can only be directly under sh or wsh''
             else fst (parse_script sample_sizeof (Suc fuel) depth 0
                         \<lparr>in_buf = ''sortedmulti('' @ rest, out_buf = a\<rparr>))"
    by blast
  have c4: "fst (parse_script sample_sizeof (Suc 0) 1 3
          \<lparr>in_buf = ''sortedmulti('' @ ''2,@0,@1)'', out_buf = buffer_create 0 1024\<rparr>) =
     Err ''sortedmulti can only be directly under sh or wsh''"
    using g [rule_format, of 0 1 3 "''2,@0,@1)''" "buffer_create 0 1024"] f b(1)
    by presburger
  have c5: "fst (parse_script sample_sizeof (Suc 0) 1 2
          \<lparr>in_buf = ''sortedmulti('' @ ''2,@0,@1)'', out_buf = buffer_create 0 1024\<rparr>) =
     fst (parse_script sample_sizeof (Suc 0) 1 0
          \<lparr>in_buf = ''sortedmulti('' @ ''2,@0,@1)'', out_buf = buffer_create 0 1024\<rparr>)"
    using g [rule_format, of 0 1 2 "''2,@0,@1)''" "buffer_create 0 1024"] f
    by presburger
  have c6: "fst (parse_script sample_sizeof (Suc 0) 1 3
          \<lparr>in_buf = ''sortedmulti('' @ ''2,@0,@1)'', out_buf = buffer_create 0 8\<rparr>) =
     Err ''Out of memory''"
    using g [rule_format, of 0 1 3 "''2,@0,@1)''" "buffer_create 0 8"] b(2) o
    by presburger
  from m r c1 c2 c3 c4 c5 c6 e show ?thesis by presburger
qed

text \<open>
  C5. The claim is that \<open>sh(wsh(sortedmulti(1,@0)))\<close> fails. It is accepted: \<^verbatim>\<open>wsh\<close>
  passes \<^verbatim>\<open>CONTEXT_WITHIN_WSH\<close> alone to its child, not the flags of its own context, so
  the \<^verbatim>\<open>sortedmulti\<close> below it is parsed under one flag. The comment at the head of the
  source lists \<open>sh(wsh(sortedmulti(...)))\<close> among the supported policies.
\<close>

theorem nested_sortedmulti_counterexample:
  "fst (parse_policy_map sample_sizeof ''sh(wsh(sortedmulti(1,@0)))'' 0 1024) =
     Ok (Node_With_Script TOKEN_SH Not_Miniscript
           (Node_With_Script TOKEN_WSH Not_Miniscript
              (Node_Multisig TOKEN_SORTEDMULTI Not_Miniscript 1 1 [0])))"
  by (simp add: parser_eval lex_eval buffer_alloc_def padding_def buffer_create_def)

text \<open>
  C5, amended. \<open>sh(wsh(sortedmulti(1,@0)))\<close> is accepted whenever the arena has room for
  its nodes; a \<^verbatim>\<open>sortedmulti\<close> token parsed under context flags that contain both
  \<^verbatim>\<open>CONTEXT_WITHIN_SH\<close> and \<^verbatim>\<open>CONTEXT_WITHIN_WSH\<close> is rejected, whatever follows its
  opening parenthesis: with the context error when the allocation of its node has
  succeeded, with "Out of memory" when it has not.
\<close>

theorem nested_sortedmulti_accepted:
  assumes "out mod 4 = 0"
      and "2 * sizeof Policy_node_with_script_t + sizeof Policy_node_multisig_t +
           sizeof Size_t + 21 \<le> out_len"
  shows "fst (parse_policy_map sizeof ''sh(wsh(sortedmulti(1,@0)))'' out out_len) =
           Ok (Node_With_Script TOKEN_SH Not_Miniscript
                 (Node_With_Script TOKEN_WSH Not_Miniscript
                    (Node_Multisig TOKEN_SORTEDMULTI Not_Miniscript 1 1 [0]))) \<and>
         (\<forall>fuel depth context_flags rest a.
            context_flags AND CONTEXT_WITHIN_SH \<noteq> 0 \<and> context_flags AND CONTEXT_WITHIN_WSH \<noteq> 0 \<longrightarrow>
            fst (parse_script sizeof (Suc fuel) depth context_flags
                   \<lparr>in_buf = ''sortedmulti('' @ rest, out_buf = a\<rparr>) =
              (if buffer_alloc a (sizeof Policy_node_multisig_t) True = None
               then Err ''Out of memory''
               else Err ''sortedmulti can only be directly under sh or wsh''))"
proof (intro conjI allI impI)
  show "fst (parse_policy_map sizeof ''sh(wsh(sortedmulti(1,@0)))'' out out_len) =
           Ok (Node_With_Script TOKEN_SH Not_Miniscript
                 (Node_With_Script TOKEN_WSH Not_Miniscript
                    (Node_Multisig TOKEN_SORTEDMULTI Not_Miniscript 1 1 [0])))"
    using assms by (simp add: parser_eval lex_eval arena_eval)
next
  fix fuel depth context_flags rest a
  assume "context_flags AND CONTEXT_WITHIN_SH \<noteq> 0 \<and> context_flags AND CONTEXT_WITHIN_WSH \<noteq> 0"
  then have "sortedmulti_context_error context_flags"
    by (simp add: sortedmulti_context_error_def)
  then show "fst (parse_script sizeof (Suc fuel) depth context_flags
                   \<lparr>in_buf = ''sortedmulti('' @ rest, out_buf = a\<rparr>) =
              (if buffer_alloc a (sizeof Policy_node_multisig_t) True = None
               then Err ''Out of memory''
               else Err ''sortedmulti can only be directly under sh or wsh'')"
    by (rule sortedmulti_both_flags)
qed

theorem nested_sortedmulti_accepted_witness:
  "(0::nat) mod 4 = 0 \<and>
   2 * sample_sizeof Policy_node_with_script_t + sample_sizeof Policy_node_multisig_t +
     sample_sizeof Size_t + 21 \<le> (1024::nat) \<and>
   (3::32 word) AND CONTEXT_WITHIN_SH \<noteq> 0 \<and> (3::32 word) AND CONTEXT_WITHIN_WSH \<noteq> 0 \<and>
   fst (parse_policy_map sample_sizeof ''sh(wsh(sortedmulti(1,@0)))'' 0 1024) =
     Ok (Node_With_Script TOKEN_SH Not_Miniscript
           (Node_With_Script TOKEN_WSH Not_Miniscript
              (Node_Multisig TOKEN_SORTEDMULTI Not_Miniscript 1 1 [0]))) \<and>
   fst (parse_script sample_sizeof (Suc 0) 2 3
          \<lparr>in_buf = ''sortedmulti('' @ ''1,@0)'', out_buf = buffer_create 0 1024\<rparr>) =
     Err ''sortedmulti can only be directly under sh or wsh'' \<and>
   fst (parse_script sample_sizeof (Suc 0) 2 3
          \<lparr>in_buf = ''sortedmulti('' @ ''1,@0)'', out_buf = buffer_create 0 8\<rparr>) =
     Err ''Out of memory''"
proof -
  have f: "(3::32 word) AND CONTEXT_WITHIN_SH \<noteq> 0 \<and> (3::32 word) AND CONTEXT_WITHIN_WSH \<noteq> 0"
    by (simp add: CONTEXT_WITHIN_SH_def CONTEXT_WITHIN_WSH_def)
  have b: "buffer_alloc (buffer_create 0 1024) (sample_sizeof Policy_node_multisig_t) True
             \<noteq> None"
          "buffer_alloc (buffer_create 0 8) (sample_sizeof Policy_node_multisig_t) True = None"
    by (simp_all add: buffer_alloc_def padding_def buffer_create_def)
  have m: "(0::nat) mod 4 = 0" by simp
  have r: "2 * sample_sizeof Policy_node_with_script_t + sample_sizeof Policy_node_multisig_t +
           sample_sizeof Size_t + 21 \<le> (1024::nat)" by simp
  note t = nested_sortedmulti_accepted [OF m r]
  from t have g: "\<forall>fuel depth context_flags rest a.
            context_flags AND CONTEXT_WITHIN_SH \<noteq> 0 \<and> context_flags AND CONTEXT_WITHIN_WSH \<noteq> 0 \<longrightarrow>
            fst (parse_script sample_sizeof (Suc fuel) depth context_flags
                   \<lparr>in_buf = ''sortedmulti('' @ rest, out_buf = a\<rparr>) =
              (if buffer_alloc a (sample_sizeof Policy_node_multisig_t) True = None
               then Err ''Out of memory''
               else Err ''sortedmulti can only be directly under sh or wsh'')"
    by blast
  have c1: "fst (parse_script sample_sizeof (Suc 0) 2 3
          \<lparr>in_buf = ''sortedmulti('' @ ''1,@0)'', out_buf = buffer_create 0 1024\<rparr>) =
     Err ''sortedmulti can only be directly under sh or wsh''"
    using g [rule_format, of 3 0 2 "''1,@0)''" "buffer_create 0 1024"] f b(1)
    by presburger
  have c2: "fst (parse_script sample_sizeof (Suc 0) 2 3
          \<lparr>in_buf = ''sortedmulti('' @ ''1,@0)'', out_buf = buffer_create 0 8\<rparr>) =
     Err ''Out of memory''"
    using g [rule_format, of 3 0 2 "''1,@0)''" "buffer_create 0 8"] f b(2)
    by presburger
  from t have c0: "fst (parse_policy_map sample_sizeof ''sh(wsh(sortedmulti(1,@0)))'' 0 1024) =
     Ok (Node_With_Script TOKEN_SH Not_Miniscript
           (Node_With_Script TOKEN_WSH Not_Miniscript
              (Node_Multisig TOKEN_SORTEDMULTI Not_Miniscript 1 1 [0])))"
    by blast
  from f m r c0 c1 c2 show ?thesis by blast
qed


subsection \<open>Key origin\<close>

lemma hardened_le [simp]:
  "\<not> BIP32_FIRST_HARDENED_CHILD \<le> 1" "\<not> BIP32_FIRST_HARDENED_CHILD \<le> 0"
  by (simp_all add: BIP32_FIRST_HARDENED_CHILD_def word_le_nat_alt)

lemma read_ext_pubkey_all:
  "length xs \<le> m \<Longrightarrow> \<forall>c \<in> set xs. is_alphanumeric c \<Longrightarrow> read_ext_pubkey xs m = (xs, [])"
  by (induction xs arbitrary: m) auto

lemma list_update_numeral:
  "(x # xs)[numeral k := v] = x # xs[pred_numeral k := v]"
  by (simp add: numeral_eq_Suc)

lemma replicate_pred_numeral:
  "replicate (numeral k) x = x # replicate (pred_numeral k) x"
  by (simp add: numeral_eq_Suc)

lemmas nat_eval = numeral_2_eq_2 [symmetric] list_update_numeral replicate_pred_numeral

lemma parse_key_origin_nine:
  "parse_key_origin store_past_end (''[deadbeef/44'/0'/0'/0/1/2/3/4/5]'' @ rest) key_info_zero =
     (0, (store_past_end 8 5 eight_steps_read)
           \<lparr>master_key_derivation_len :=
              master_key_derivation_len (store_past_end 8 5 eight_steps_read) + 1\<rparr>, rest)"
  by (simp add: parse_key_origin_def key_info_zero_def lex_eval
        read_derivation_steps.simps [of _ "_ # _"]
        buffer_read_derivation_step_def MAX_BIP32_PATH_STEPS_def store_derivation_step_def
        eight_steps_read_def Let_def)
     (simp add: BIP32_FIRST_HARDENED_CHILD_def nat_eval)

text \<open>
  C7. The claim is that an origin with more than 8 derivation steps is rejected. The guard
  of the loop, \<^verbatim>\<open>master_key_derivation_len > MAX_BIP32_PATH_STEPS\<close>, is tested before a step
  is read: with 8 steps stored it is false, and the ninth step is read and stored at index
  8 of \<^verbatim>\<open>master_key_derivation\<close>, past the end of the array. An entry with nine steps and a
  key of 111 characters is accepted, with return code 0 and the buffer read to its end,
  whatever the store past the end overwrites and whatever \<^verbatim>\<open>MAX_SERIALIZED_PUBKEY_LENGTH\<close>
  from 111 on. The structure returned is the one with eight steps read, after the store of
  the ninth step (the value 5) at index 8, with the length counted up once more and the key
  copied.
\<close>

theorem key_origin_accepts_nine_steps:
  assumes "111 \<le> MAX_SERIALIZED_PUBKEY_LENGTH"
  shows "parse_policy_map_key_info store_past_end MAX_SERIALIZED_PUBKEY_LENGTH
           (''[deadbeef/44'/0'/0'/0/1/2/3/4/5]'' @ replicate 111 (CHR ''x'')) =
         (0, (store_past_end 8 5 eight_steps_read)
               \<lparr>master_key_derivation_len :=
                  master_key_derivation_len (store_past_end 8 5 eight_steps_read) + 1,
                ext_pubkey := replicate 111 (CHR ''x'')\<rparr>, [])"
proof -
  have "read_ext_pubkey (replicate 111 (CHR ''x'')) MAX_SERIALIZED_PUBKEY_LENGTH =
          (replicate 111 (CHR ''x''), [])"
    using assms by (intro read_ext_pubkey_all) (auto simp: is_alphanumeric_def is_alpha_def)
  then show ?thesis
    unfolding parse_policy_map_key_info_def parse_key_origin_nine
    by (simp add: buffer_can_read_def)
qed

text \<open>
  With the fingerprint laid out directly after the array, the entry of nine steps is
  accepted with nine steps counted, eight of them in the array, and the fingerprint
  \<^verbatim>\<open>deadbeef\<close> overwritten by the bytes 05 00 00 00 of the ninth step.
\<close>

theorem key_origin_accepts_nine_steps_witness:
  "(111::nat) \<le> 113 \<and>
   parse_policy_map_key_info store_over_fingerprint 113
     (''[deadbeef/44'/0'/0'/0/1/2/3/4/5]'' @ replicate 111 (CHR ''x'')) =
   (0, \<lparr>master_key_derivation = [0x8000002C, 0x80000000, 0x80000000, 0, 1, 2, 3, 4],
        master_key_derivation_len = 9,
        master_key_fingerprint = [0x05, 0, 0, 0], has_key_origin = True,
        has_wildcard = False, ext_pubkey = replicate 111 (CHR ''x'')\<rparr>, [])"
  using key_origin_accepts_nine_steps [of 113 store_over_fingerprint]
  by (simp add: store_over_fingerprint_def eight_steps_read_def MAX_BIP32_PATH_STEPS_def)

subsection \<open>Wallet header\<close>

lemma buffer_read_u8_append:
  "buffer_read_u8 b = (Some x, r) \<Longrightarrow> buffer_read_u8 (b @ e) = (Some x, r @ e)"
  by (auto simp: buffer_read_u8_def split: list.splits)

lemma buffer_read_bytes_append:
  "buffer_read_bytes b n = (Some x, r) \<Longrightarrow> buffer_read_bytes (b @ e) n = (Some x, r @ e)"
  by (auto simp: buffer_read_bytes_def split: if_splits)

lemma buffer_read_varint_append:
  "buffer_read_varint b = (Some x, r) \<Longrightarrow> buffer_read_varint (b @ e) = (Some x, r @ e)"
  by (auto simp: buffer_read_varint_def Let_def split: list.splits if_splits)

lemma read_wal_header: "read_policy_map_wallet wal_header = (0, Some wal_header_decoded, [])"
  by (simp add: read_policy_map_wallet_def wal_header_def wal_header_decoded_def
        buffer_read_u8_def buffer_read_bytes_def buffer_read_varint_def
        WALLET_TYPE_POLICY_MAP_def MAX_WALLET_NAME_LENGTH_def MAX_POLICY_MAP_STR_LENGTH_def)

text \<open>
  C8. The claim is that a successful decode leaves the buffer exhausted. The function
  returns 0 after the 32 bytes of the Merkle root without looking at what follows: the
  header \<open>wal_header\<close> followed by the byte \<open>0xFF\<close> is decoded, and that byte is left unread.
\<close>

theorem header_trailing_byte_counterexample:
  "read_policy_map_wallet (wal_header @ [0xFF]) = (0, Some wal_header_decoded, [0xFF])"
  by (simp add: read_policy_map_wallet_def wal_header_def wal_header_decoded_def
        buffer_read_u8_def buffer_read_bytes_def buffer_read_varint_def
        WALLET_TYPE_POLICY_MAP_def MAX_WALLET_NAME_LENGTH_def MAX_POLICY_MAP_STR_LENGTH_def)

text \<open>
  C8, amended. \<^verbatim>\<open>read_policy_map_wallet\<close> does not test what follows the Merkle root: when
  it decodes a header from a buffer, it decodes the same header from that buffer followed
  by any further bytes, which it leaves unread after the root.
\<close>

theorem header_ignores_trailing_bytes:
  assumes "read_policy_map_wallet buffer = (0, Some header, rest)"
  shows "read_policy_map_wallet (buffer @ extra) = (0, Some header, rest @ extra)"
  using assms
  unfolding read_policy_map_wallet_def
  by (auto simp: Let_def buffer_read_u8_append buffer_read_bytes_append buffer_read_varint_append
           split: prod.splits option.splits if_splits)

theorem header_ignores_trailing_bytes_witness:
  "read_policy_map_wallet wal_header = (0, Some wal_header_decoded, []) \<and>
   read_policy_map_wallet (wal_header @ [0xAA, 0xBB]) =
     (0, Some wal_header_decoded, [0xAA, 0xBB])"
  using header_ignores_trailing_bytes [OF read_wal_header, of "[0xAA, 0xBB]"] read_wal_header
  by simp


subsection \<open>Wrapper prefix\<close>

lemma wrapper_letter:
  assumes "c \<in> set ''acdjlnstuv''"
  shows "is_wrapper_character c" and "wrapper_type c \<noteq> None" and "c \<noteq> CHR '':''"
  using assms
  by (auto simp: is_wrapper_character_def is_valid_miniscript_wrapper_def wrapper_type_def)

lemma wrapper_letter_kind:
  assumes "c \<in> set ''acdjlnstuv''"
  shows "wrapper_type c = map_of wrapper_kind_table c"
  using assms by (auto simp: wrapper_type_def wrapper_kind_table_def)

lemma lookahead_wrappers_prefix:
  assumes "set ws \<subseteq> set ''acdjlnstuv''" and "n \<le> length ws"
  shows "lookahead_wrappers (ws @ CHR '':'' # body) n = (length ws, Some (CHR '':''))"
  using assms(2)
proof (induction "length ws - n" arbitrary: n)
  case 0
  then have n: "n = length ws" by simp
  have "\<not> is_wrapper_character (CHR '':'')"
    by (simp add: is_wrapper_character_def)
  then show ?case
    by (subst lookahead_wrappers.simps) (simp add: n buffer_peek_n_def)
next
  case (Suc k)
  then have n: "n < length ws" by simp
  then have "ws ! n \<in> set ''acdjlnstuv''"
    using assms(1) nth_mem by blast
  then have w: "is_wrapper_character (ws ! n)" by (rule wrapper_letter)
  have "lookahead_wrappers (ws @ CHR '':'' # body) (n + 1) = (length ws, Some (CHR '':''))"
    using Suc n by (intro Suc.hyps(1)) simp_all
  then show ?case
    using n w
    by (subst lookahead_wrappers.simps) (simp add: buffer_peek_n_def nth_append)
qed

lemma parse_wrappers_prefix:
  assumes "set ws \<subseteq> set ''acdjlnstuv''"
      and "parse_wrappers sizeof (length ws) \<lparr>in_buf = ws @ rest, out_buf = a\<rparr> = (Ok ts, s1)"
  shows "ts = wrapper_kinds ws \<and> in_buf s1 = rest"
  using assms
proof (induction ws arbitrary: a ts s1)
  case Nil
  then show ?case by (auto simp: ret_def wrapper_kinds_def)
next
  case (Cons c ws)
  from Cons.prems(1) have c: "c \<in> set ''acdjlnstuv''" and ws: "set ws \<subseteq> set ''acdjlnstuv''"
    by simp_all
  from wrapper_letter(2) [OF c] obtain t where t: "wrapper_type c = Some t" by blast
  from Cons.prems(2) obtain a1 where
    a1: "buffer_alloc a (sizeof Policy_node_with_script_t) True = Some a1"
    by (auto simp: bnd_def alloc_node_def split: option.splits)
  from Cons.prems(2) a1 t obtain ts1 where
    r: "parse_wrappers sizeof (length ws) \<lparr>in_buf = ws @ rest, out_buf = a1\<rparr> = (Ok ts1, s1)"
    and ts: "ts = t # ts1"
    by (auto simp: bnd_def alloc_node_def buffer_read_u8_def ret_def
             split: prod.splits res.splits)
  from Cons.IH [OF ws r] show ?case
    using ts t wrapper_letter_kind [OF c] by (simp add: wrapper_kinds_def)
qed

lemma apply_wrappers_chain:
  "apply_wrappers ws parsed_node = Ok root \<Longrightarrow> unwrap_chain ws root = Some parsed_node"
  by (induction ws arbitrary: root) (auto split: res.splits)

lemma wrapper_prefix_structure:
  assumes "set ws \<subseteq> set ''acdjlnstuv''"
      and "parse_script sizeof fuel depth context_flags
             \<lparr>in_buf = ws @ CHR '':'' # body, out_buf = a\<rparr> = (Ok root, s')"
  shows "\<exists>parsed_node fuel' a'.
           unwrap_chain (wrapper_kinds ws) root = Some parsed_node \<and>
           parse_unwrapped sizeof (parse_script sizeof fuel') depth context_flags
             \<lparr>in_buf = body, out_buf = a'\<rparr> = (Ok parsed_node, s')"
proof -
  from assms(2) obtain fuel' where fuel: "fuel = Suc fuel'"
    by (cases fuel) auto
  let ?s = "\<lparr>in_buf = ws @ CHR '':'' # body, out_buf = a\<rparr>"
  have look: "lookahead_wrappers (in_buf ?s) 0 = (length ws, Some (CHR '':''))"
    using lookahead_wrappers_prefix [OF assms(1), of 0 body] by simp
  from assms(2) obtain ts s1 where
    pre: "parse_wrapper_prefix sizeof ?s = (Ok ts, s1)"
    by (auto simp: fuel parse_script_body_def bnd_def split: prod.splits res.splits)
  from pre obtain s0 where
    w: "parse_wrappers sizeof (length ws) ?s = (Ok ts, s0)"
    and s1: "s1 = s0\<lparr>in_buf := buffer_seek_cur (in_buf s0) 1\<rparr>"
    unfolding parse_wrapper_prefix_def look
    by (auto simp: bnd_def split: prod.splits res.splits)
  from parse_wrappers_prefix [OF assms(1) w]
  have ts: "ts = wrapper_kinds ws" and s0: "in_buf s0 = CHR '':'' # body" by simp_all
  have s1': "s1 = \<lparr>in_buf = body, out_buf = out_buf s0\<rparr>"
    using s1 s0 by (simp add: buffer_seek_cur_def)
  from assms(2) pre obtain parsed_node where
    u: "parse_unwrapped sizeof (parse_script sizeof fuel') depth context_flags s1 =
          (Ok parsed_node, s')"
    and ap: "apply_wrappers ts parsed_node = Ok root"
    by (auto simp: fuel parse_script_body_def bnd_def lift_def split: prod.splits res.splits)
  from apply_wrappers_chain [OF ap] ts u s1' show ?thesis by blast
qed


text \<open>
  C3. When \<^verbatim>\<open>parse_script\<close> accepts an input that starts with wrapper letters
  \<open>w1 ... wk\<close> and a colon, the node it returns is a chain of \<open>k\<close> wrapper nodes whose
  kinds are those that the specification gives to \<open>w1\<close>, ..., \<open>wk\<close>, in this order, each
  holding the flags that the wrapper loop computes from its \<^verbatim>\<open>script\<close>, and the \<^verbatim>\<open>script\<close>
  of the innermost one is the node parsed from the rest of the input after the colon. The
  body \<open>c:pk_k(@0)\<close> is accepted, whenever the arena has room for the two nodes: the root
  is the wrapper \<open>C\<close> of type B with z=0, o=1, n=1, d=1, u=1 over a \<open>PK_K\<close> node. With two
  wrappers, \<open>dv:older(1)\<close> is accepted with root \<open>D\<close> over \<open>V\<close> over the \<open>OLDER\<close> node, and
  \<open>sc:pk_k(@0)\<close> with root \<open>S\<close> over \<open>C\<close> over the \<open>PK_K\<close> node, whenever the arena has room
  for the three nodes.
\<close>

theorem wrapper_chain_of_prefix:
  "(\<forall>ws body fuel depth context_flags a root s'.
      set ws \<subseteq> set ''acdjlnstuv'' \<longrightarrow>
      parse_script sizeof fuel depth context_flags
        \<lparr>in_buf = ws @ CHR '':'' # body, out_buf = a\<rparr> = (Ok root, s') \<longrightarrow>
      (\<exists>parsed_node fuel' a'.
         unwrap_chain (wrapper_kinds ws) root = Some parsed_node \<and>
         parse_unwrapped sizeof (parse_script sizeof fuel') depth context_flags
           \<lparr>in_buf = body, out_buf = a'\<rparr> = (Ok parsed_node, s'))) \<and>
   (out mod 4 = 0 \<longrightarrow>
    sizeof Policy_node_with_script_t + sizeof Policy_node_with_key_t + 6 \<le> out_len \<longrightarrow>
    fst (parse_policy_map sizeof ''c:pk_k(@0)'' out out_len) =
      Ok (Node_With_Script TOKEN_C (Miniscript MINISCRIPT_TYPE_B False True True True True)
            (Node_With_Key TOKEN_PK_K
               (Miniscript MINISCRIPT_TYPE_K False True True True True) 0))) \<and>
   (out mod 4 = 0 \<longrightarrow>
    2 * sizeof Policy_node_with_script_t + sizeof Policy_node_with_uint32_t + 9 \<le> out_len \<longrightarrow>
    fst (parse_policy_map sizeof ''dv:older(1)'' out out_len) =
      Ok (Node_With_Script TOKEN_D (Miniscript MINISCRIPT_TYPE_B False True True True False)
            (Node_With_Script TOKEN_V (Miniscript MINISCRIPT_TYPE_V True False False False False)
               (Node_With_Uint32 TOKEN_OLDER
                  (Miniscript MINISCRIPT_TYPE_B True False False False False) 1)))) \<and>
   (out mod 4 = 0 \<longrightarrow>
    2 * sizeof Policy_node_with_script_t + sizeof Policy_node_with_key_t + 9 \<le> out_len \<longrightarrow>
    fst (parse_policy_map sizeof ''sc:pk_k(@0)'' out out_len) =
      Ok (Node_With_Script TOKEN_S (Miniscript MINISCRIPT_TYPE_W False False False True True)
            (Node_With_Script TOKEN_C (Miniscript MINISCRIPT_TYPE_B False True True True True)
               (Node_With_Key TOKEN_PK_K
                  (Miniscript MINISCRIPT_TYPE_K False True True True True) 0))))"
proof (intro conjI allI impI)
  fix ws body fuel depth context_flags a root s'
  assume "set ws \<subseteq> set ''acdjlnstuv''"
     and "parse_script sizeof fuel depth context_flags
            \<lparr>in_buf = ws @ CHR '':'' # body, out_buf = a\<rparr> = (Ok root, s')"
  then show "\<exists>parsed_node fuel' a'.
         unwrap_chain (wrapper_kinds ws) root = Some parsed_node \<and>
         parse_unwrapped sizeof (parse_script sizeof fuel') depth context_flags
           \<lparr>in_buf = body, out_buf = a'\<rparr> = (Ok parsed_node, s')"
    by (rule wrapper_prefix_structure)
next
  assume "out mod 4 = 0"
     and "sizeof Policy_node_with_script_t + sizeof Policy_node_with_key_t + 6 \<le> out_len"
  then show "fst (parse_policy_map sizeof ''c:pk_k(@0)'' out out_len) =
      Ok (Node_With_Script TOKEN_C (Miniscript MINISCRIPT_TYPE_B False True True True True)
            (Node_With_Key TOKEN_PK_K
               (Miniscript MINISCRIPT_TYPE_K False True True True True) 0))"
    by (simp add: parser_eval lex_eval arena_eval)
next
  assume "out mod 4 = 0"
     and "2 * sizeof Policy_node_with_script_t + sizeof Policy_node_with_uint32_t + 9
            \<le> out_len"
  then show "fst (parse_policy_map sizeof ''dv:older(1)'' out out_len) =
      Ok (Node_With_Script TOKEN_D (Miniscript MINISCRIPT_TYPE_B False True True True False)
            (Node_With_Script TOKEN_V (Miniscript MINISCRIPT_TYPE_V True False False False False)
               (Node_With_Uint32 TOKEN_OLDER
                  (Miniscript MINISCRIPT_TYPE_B True False False False False) 1)))"
    by (simp add: parser_eval lex_eval arena_eval word_le_nat_alt)
next
  assume "out mod 4 = 0"
     and "2 * sizeof Policy_node_with_script_t + sizeof Policy_node_with_key_t + 9 \<le> out_len"
  then show "fst (parse_policy_map sizeof ''sc:pk_k(@0)'' out out_len) =
      Ok (Node_With_Script TOKEN_S (Miniscript MINISCRIPT_TYPE_W False False False True True)
            (Node_With_Script TOKEN_C (Miniscript MINISCRIPT_TYPE_B False True True True True)
               (Node_With_Key TOKEN_PK_K
                  (Miniscript MINISCRIPT_TYPE_K False True True True True) 0)))"
    by (simp add: parser_eval lex_eval arena_eval)
qed

lemma parse_dv_older:
  "parse_script sample_sizeof (Suc 0) 0 0
     \<lparr>in_buf = ''dv'' @ CHR '':'' # ''older(1)'', out_buf = buffer_create 0 1024\<rparr> =
   (Ok (Node_With_Script TOKEN_D (Miniscript MINISCRIPT_TYPE_B False True True True False)
          (Node_With_Script TOKEN_V (Miniscript MINISCRIPT_TYPE_V True False False False False)
             (Node_With_Uint32 TOKEN_OLDER
                (Miniscript MINISCRIPT_TYPE_B True False False False False) 1))),
    \<lparr>in_buf = [], out_buf = \<lparr>a_ptr = 0, a_size = 1024, a_offset = 144\<rparr>\<rparr>)"
  by (simp add: parser_eval lex_eval buffer_alloc_def padding_def buffer_create_def
        word_le_nat_alt)

theorem wrapper_chain_of_prefix_witness:
  "set ''dv'' \<subseteq> set ''acdjlnstuv'' \<and>
   parse_script sample_sizeof (Suc 0) 0 0
     \<lparr>in_buf = ''dv'' @ CHR '':'' # ''older(1)'', out_buf = buffer_create 0 1024\<rparr> =
   (Ok (Node_With_Script TOKEN_D (Miniscript MINISCRIPT_TYPE_B False True True True False)
          (Node_With_Script TOKEN_V (Miniscript MINISCRIPT_TYPE_V True False False False False)
             (Node_With_Uint32 TOKEN_OLDER
                (Miniscript MINISCRIPT_TYPE_B True False False False False) 1))),
    \<lparr>in_buf = [], out_buf = \<lparr>a_ptr = 0, a_size = 1024, a_offset = 144\<rparr>\<rparr>) \<and>
   wrapper_kinds ''dv'' = [TOKEN_D, TOKEN_V] \<and>
   (\<exists>parsed_node fuel' a'.
      unwrap_chain [TOKEN_D, TOKEN_V]
        (Node_With_Script TOKEN_D (Miniscript MINISCRIPT_TYPE_B False True True True False)
          (Node_With_Script TOKEN_V (Miniscript MINISCRIPT_TYPE_V True False False False False)
             (Node_With_Uint32 TOKEN_OLDER
                (Miniscript MINISCRIPT_TYPE_B True False False False False) 1)))
        = Some parsed_node \<and>
      parse_unwrapped sample_sizeof (parse_script sample_sizeof fuel') 0 0
        \<lparr>in_buf = ''older(1)'', out_buf = a'\<rparr> =
      (Ok parsed_node, \<lparr>in_buf = [], out_buf = \<lparr>a_ptr = 0, a_size = 1024, a_offset = 144\<rparr>\<rparr>)) \<and>
   (0::nat) mod 4 = 0 \<and>
   sample_sizeof Policy_node_with_script_t + sample_sizeof Policy_node_with_key_t + 6
     \<le> (1024::nat) \<and>
   2 * sample_sizeof Policy_node_with_script_t + sample_sizeof Policy_node_with_uint32_t + 9
     \<le> (1024::nat) \<and>
   2 * sample_sizeof Policy_node_with_script_t + sample_sizeof Policy_node_with_key_t + 9
     \<le> (1024::nat) \<and>
   fst (parse_policy_map sample_sizeof ''c:pk_k(@0)'' 0 1024) =
     Ok (Node_With_Script TOKEN_C (Miniscript MINISCRIPT_TYPE_B False True True True True)
           (Node_With_Key TOKEN_PK_K
              (Miniscript MINISCRIPT_TYPE_K False True True True True) 0)) \<and>
   fst (parse_policy_map sample_sizeof ''dv:older(1)'' 0 1024) =
     Ok (Node_With_Script TOKEN_D (Miniscript MINISCRIPT_TYPE_B False True True True False)
           (Node_With_Script TOKEN_V (Miniscript MINISCRIPT_TYPE_V True False False False False)
              (Node_With_Uint32 TOKEN_OLDER
                 (Miniscript MINISCRIPT_TYPE_B True False False False False) 1))) \<and>
   fst (parse_policy_map sample_sizeof ''sc:pk_k(@0)'' 0 1024) =
     Ok (Node_With_Script TOKEN_S (Miniscript MINISCRIPT_TYPE_W False False False True True)
           (Node_With_Script TOKEN_C (Miniscript MINISCRIPT_TYPE_B False True True True True)
              (Node_With_Key TOKEN_PK_K
                 (Miniscript MINISCRIPT_TYPE_K False True True True True) 0)))"
proof -
  have l: "set ''dv'' \<subseteq> set ''acdjlnstuv''" by simp
  have k: "wrapper_kinds ''dv'' = [TOKEN_D, TOKEN_V]"
    by (simp add: wrapper_kinds_def wrapper_kind_table_def)
  note t = wrapper_chain_of_prefix [of sample_sizeof 0 1024]
  from t l parse_dv_older
  have "\<exists>parsed_node fuel' a'.
      unwrap_chain (wrapper_kinds ''dv'')
        (Node_With_Script TOKEN_D (Miniscript MINISCRIPT_TYPE_B False True True True False)
          (Node_With_Script TOKEN_V (Miniscript MINISCRIPT_TYPE_V True False False False False)
             (Node_With_Uint32 TOKEN_OLDER
                (Miniscript MINISCRIPT_TYPE_B True False False False False) 1)))
        = Some parsed_node \<and>
      parse_unwrapped sample_sizeof (parse_script sample_sizeof fuel') 0 0
        \<lparr>in_buf = ''older(1)'', out_buf = a'\<rparr> =
      (Ok parsed_node, \<lparr>in_buf = [], out_buf = \<lparr>a_ptr = 0, a_size = 1024, a_offset = 144\<rparr>\<rparr>)"
    by blast
  then have e: "\<exists>parsed_node fuel' a'.
      unwrap_chain [TOKEN_D, TOKEN_V]
        (Node_With_Script TOKEN_D (Miniscript MINISCRIPT_TYPE_B False True True True False)
          (Node_With_Script TOKEN_V (Miniscript MINISCRIPT_TYPE_V True False False False False)
             (Node_With_Uint32 TOKEN_OLDER
                (Miniscript MINISCRIPT_TYPE_B True False False False False) 1)))
        = Some parsed_node \<and>
      parse_unwrapped sample_sizeof (parse_script sample_sizeof fuel') 0 0
        \<lparr>in_buf = ''older(1)'', out_buf = a'\<rparr> =
      (Ok parsed_node, \<lparr>in_buf = [], out_buf = \<lparr>a_ptr = 0, a_size = 1024, a_offset = 144\<rparr>\<rparr>)"
    unfolding k .
  have r: "(0::nat) mod 4 = 0"
    "sample_sizeof Policy_node_with_script_t + sample_sizeof Policy_node_with_key_t + 6
       \<le> (1024::nat)"
    "2 * sample_sizeof Policy_node_with_script_t + sample_sizeof Policy_node_with_uint32_t + 9
       \<le> (1024::nat)"
    "2 * sample_sizeof Policy_node_with_script_t + sample_sizeof Policy_node_with_key_t + 9
       \<le> (1024::nat)"
    by simp_all
  from t r
  have c: "fst (parse_policy_map sample_sizeof ''c:pk_k(@0)'' 0 1024) =
     Ok (Node_With_Script TOKEN_C (Miniscript MINISCRIPT_TYPE_B False True True True True)
           (Node_With_Key TOKEN_PK_K
              (Miniscript MINISCRIPT_TYPE_K False True True True True) 0))"
    and d: "fst (parse_policy_map sample_sizeof ''dv:older(1)'' 0 1024) =
     Ok (Node_With_Script TOKEN_D (Miniscript MINISCRIPT_TYPE_B False True True True False)
           (Node_With_Script TOKEN_V (Miniscript MINISCRIPT_TYPE_V True False False False False)
              (Node_With_Uint32 TOKEN_OLDER
                 (Miniscript MINISCRIPT_TYPE_B True False False False False) 1)))"
    and s: "fst (parse_policy_map sample_sizeof ''sc:pk_k(@0)'' 0 1024) =
     Ok (Node_With_Script TOKEN_S (Miniscript MINISCRIPT_TYPE_W False False False True True)
           (Node_With_Script TOKEN_C (Miniscript MINISCRIPT_TYPE_B False True True True True)
              (Node_With_Key TOKEN_PK_K
                 (Miniscript MINISCRIPT_TYPE_K False True True True True) 0)))"
    by blast+
  from l parse_dv_older k e r c d s show ?thesis by blast
qed


subsection \<open>\<^verbatim>\<open>parse_script\<close> returns\<close>

text \<open>
  The bounds of the model are never reached: a call of \<^verbatim>\<open>parse_script\<close> whose bound
  exceeds the length of the unread input returns a node or an error, and so does every call
  of \<^verbatim>\<open>parse_policy_map\<close>.
\<close>

lemma boundedI:
  assumes "\<And>s r s'. m s = (r, s') \<Longrightarrow> length (in_buf s') \<le> length (in_buf s)"
      and "\<And>s r s'. m s = (r, s') \<Longrightarrow> length (in_buf s) < f \<Longrightarrow> r \<noteq> NoFuel"
  shows "bounded f m"
  using assms unfolding bounded_def by blast

lemma bounded_length:
  "bounded f m \<Longrightarrow> m s = (r, s') \<Longrightarrow> length (in_buf s') \<le> length (in_buf s)"
  unfolding bounded_def by blast

lemma bounded_fuel:
  "bounded f m \<Longrightarrow> m s = (r, s') \<Longrightarrow> length (in_buf s) < f \<Longrightarrow> r \<noteq> NoFuel"
  unfolding bounded_def by blast

lemma bounded_mono:
  assumes "bounded f m" and "g \<le> f"
  shows "bounded g m"
proof (rule boundedI)
  fix s r s'
  assume m: "m s = (r, s')"
  from bounded_length [OF assms(1) m] show "length (in_buf s') \<le> length (in_buf s)" .
  assume "length (in_buf s) < g"
  with assms(2) have "length (in_buf s) < f" by simp
  with bounded_fuel [OF assms(1) m] show "r \<noteq> NoFuel" .
qed

lemma bounded_ret [intro!, simp]: "bounded f (ret x)"
  by (simp add: bounded_def ret_def)

lemma bounded_fail [intro!, simp]: "bounded f (fail e)"
  by (simp add: bounded_def fail_def)

lemma bounded_lift: "r \<noteq> NoFuel \<Longrightarrow> bounded f (lift r)"
  by (simp add: bounded_def lift_def)

lemma bounded_bnd:
  assumes "bounded f m" and "\<And>x. bounded f (k x)"
  shows "bounded f (bnd m k)"
proof (rule boundedI)
  fix s r s'
  assume b: "bnd m k s = (r, s')"
  obtain r1 s1 where m: "m s = (r1, s1)" by (cases "m s")
  from assms(1) m have l1: "length (in_buf s1) \<le> length (in_buf s)"
    and n1: "length (in_buf s) < f \<Longrightarrow> r1 \<noteq> NoFuel"
    unfolding bounded_def by blast+
  show "length (in_buf s') \<le> length (in_buf s)"
  proof (cases r1)
    case (Ok x)
    with b m have "k x s1 = (r, s')" by (simp add: bnd_def)
    with assms(2) [of x] have "length (in_buf s') \<le> length (in_buf s1)"
      unfolding bounded_def by blast
    with l1 show ?thesis by simp
  qed (use b m l1 in \<open>auto simp: bnd_def\<close>)
  assume f: "length (in_buf s) < f"
  show "r \<noteq> NoFuel"
  proof (cases r1)
    case (Ok x)
    with b m have "k x s1 = (r, s')" by (simp add: bnd_def)
    from l1 f have "length (in_buf s1) < f" by simp
    with bounded_fuel [OF assms(2) \<open>k x s1 = (r, s')\<close>] show ?thesis .
  qed (use b m n1 f in \<open>auto simp: bnd_def\<close>)
qed

lemma bounded_bnd_strict:
  assumes "bounded (Suc f) m" and "consuming m" and "\<And>x. bounded f (k x)"
  shows "bounded (Suc f) (bnd m k)"
proof (rule boundedI)
  fix s r s'
  assume b: "bnd m k s = (r, s')"
  obtain r1 s1 where m: "m s = (r1, s1)" by (cases "m s")
  from assms(1) m have l1: "length (in_buf s1) \<le> length (in_buf s)"
    and n1: "length (in_buf s) < Suc f \<Longrightarrow> r1 \<noteq> NoFuel"
    unfolding bounded_def by blast+
  show "length (in_buf s') \<le> length (in_buf s)"
  proof (cases r1)
    case (Ok x)
    with b m have "k x s1 = (r, s')" by (simp add: bnd_def)
    with assms(3) [of x] have "length (in_buf s') \<le> length (in_buf s1)"
      unfolding bounded_def by blast
    with l1 show ?thesis by simp
  qed (use b m l1 in \<open>auto simp: bnd_def\<close>)
  assume f: "length (in_buf s) < Suc f"
  show "r \<noteq> NoFuel"
  proof (cases r1)
    case (Ok x)
    with b m have k: "k x s1 = (r, s')" by (simp add: bnd_def)
    from assms(2) m Ok have "length (in_buf s1) < length (in_buf s)"
      unfolding consuming_def by blast
    with f have "length (in_buf s1) < f" by simp
    with assms(3) [of x] k show ?thesis
      unfolding bounded_def by blast
  qed (use b m n1 f in \<open>auto simp: bnd_def\<close>)
qed

lemma parse_unsigned_decimal_loop_length:
  "length (snd (parse_unsigned_decimal_loop b r d)) \<le> length b"
  by (induction b arbitrary: r d) (auto simp: Let_def intro: le_SucI)

lemma parse_unsigned_decimal_length: "length (snd (parse_unsigned_decimal b)) \<le> length b"
  using parse_unsigned_decimal_loop_length [of b "0 :: size_t" 0]
  by (auto simp: parse_unsigned_decimal_def split: prod.splits option.splits)

lemma consume_character_length: "length (snd (consume_character b c)) \<le> length b"
  by (auto simp: consume_character_def buffer_peek_def buffer_seek_cur_def
           split: option.splits list.splits)

lemma consume_character_True:
  "consume_character b c = (True, b') \<Longrightarrow> length b' < length b"
  by (auto simp: consume_character_def buffer_peek_def buffer_seek_cur_def
           split: option.splits list.splits if_splits)

lemma parse_key_index_length: "length (snd (parse_key_index b)) \<le> length b"
proof (cases b)
  case Nil
  then show ?thesis by (simp add: parse_key_index_def buffer_read_u8_def)
next
  case (Cons c cs)
  then show ?thesis
    using parse_unsigned_decimal_length [of cs]
    by (auto simp: parse_key_index_def buffer_read_u8_def split: prod.splits res.splits)
qed

lemma read_token_length: "length (snd (read_token b n)) \<le> length b"
  by (induction b n rule: read_token.induct) (auto split: prod.splits)

lemma parse_token_length: "length (snd (parse_token b)) \<le> length b"
  using read_token_length [of b MAX_TOKEN_LENGTH]
  by (auto simp: parse_token_def split: prod.splits)

lemma read_hex_bytes_length: "length (snd (read_hex_bytes b n)) \<le> length b"
proof (induction n arbitrary: b)
  case 0
  then show ?case by simp
next
  case (Suc n)
  show ?case
  proof (cases b)
    case Nil
    then show ?thesis by simp
  next
    case (Cons c1 b1)
    show ?thesis
    proof (cases b1)
      case Nil
      with Cons show ?thesis by simp
    next
      case (Cons c2 rest)
      with \<open>b = c1 # b1\<close> Suc [of rest] show ?thesis
        by (auto split: prod.splits option.splits)
    qed
  qed
qed

lemma bounded_require [intro!, simp]: "bounded f (require c msg)"
  by (simp add: require_def)

lemma bounded_expect_character [intro!, simp]: "bounded f (expect_character c msg)"
proof (rule boundedI)
  fix s r s'
  assume "expect_character c msg s = (r, s')"
  then show "length (in_buf s') \<le> length (in_buf s)"
    using consume_character_length [of "in_buf s" c]
    by (auto simp: expect_character_def split: prod.splits bool.splits)
next
  fix s r s'
  assume "expect_character c msg s = (r, s')"
  then show "r \<noteq> NoFuel"
    by (auto simp: expect_character_def split: prod.splits bool.splits)
qed

lemma consuming_expect_character: "consuming (expect_character c msg)"
  by (auto simp: consuming_def expect_character_def split: prod.splits bool.splits
           dest: consume_character_True)

lemma bounded_alloc_node [intro!, simp]: "bounded f (alloc_node n)"
  by (auto simp: bounded_def alloc_node_def split: option.splits)

lemma bounded_align_cur [intro!, simp]: "bounded f align_cur"
  by (auto simp: bounded_def align_cur_def split: option.splits)

lemma bounded_read_decimal [intro!, simp]: "bounded f (read_decimal msg)"
proof (rule boundedI)
  fix s r s'
  assume "read_decimal msg s = (r, s')"
  then show "length (in_buf s') \<le> length (in_buf s)"
    using parse_unsigned_decimal_length [of "in_buf s"]
    by (auto simp: read_decimal_def split: prod.splits res.splits)
next
  fix s r s'
  assume "read_decimal msg s = (r, s')"
  then show "r \<noteq> NoFuel"
    by (auto simp: read_decimal_def split: prod.splits res.splits)
qed

lemma bounded_read_key_index [intro!, simp]: "bounded f (read_key_index msg)"
proof (rule boundedI)
  fix s r s'
  assume "read_key_index msg s = (r, s')"
  then show "length (in_buf s') \<le> length (in_buf s)"
    using parse_key_index_length [of "in_buf s"]
    by (auto simp: read_key_index_def split: prod.splits if_splits)
next
  fix s r s'
  assume "read_key_index msg s = (r, s')"
  then show "r \<noteq> NoFuel"
    by (auto simp: read_key_index_def split: prod.splits if_splits)
qed

lemma bounded_read_hex_hash [intro!, simp]: "bounded f (read_hex_hash n msg)"
proof (rule boundedI)
  fix s r s'
  assume "read_hex_hash n msg s = (r, s')"
  then show "length (in_buf s') \<le> length (in_buf s)"
    using read_hex_bytes_length [of "in_buf s" n]
    by (auto simp: read_hex_hash_def buffer_read_hex_hash_def split: prod.splits option.splits if_splits)
next
  fix s r s'
  assume "read_hex_hash n msg s = (r, s')"
  then show "r \<noteq> NoFuel"
    by (auto simp: read_hex_hash_def split: prod.splits option.splits)
qed


lemma wrapper_flags_no_fuel: "wrapper_flags w X \<noteq> NoFuel"
  by (cases X; cases w) auto

lemma apply_wrappers_no_fuel: "apply_wrappers ws X \<noteq> NoFuel"
  by (induction ws) (auto simp: wrapper_flags_no_fuel split: res.splits)

lemma andor_flags_no_fuel: "andor_flags X Y Z \<noteq> NoFuel"
  by (cases X; cases Y; cases Z) auto

lemma flags2_no_fuel:
  "and_v_flags X Y \<noteq> NoFuel" "and_b_flags X Y \<noteq> NoFuel" "and_n_flags X Y \<noteq> NoFuel"
  "or_b_flags X Y \<noteq> NoFuel" "or_c_flags X Y \<noteq> NoFuel" "or_d_flags X Y \<noteq> NoFuel"
  "or_i_flags X Y \<noteq> NoFuel"
  by (cases X; cases Y; auto)+

lemma thresh_child_check_no_fuel: "thresh_child_check n X \<noteq> NoFuel"
  by (cases X) auto

lemma key_node_flags_no_fuel: "key_node_flags t \<noteq> NoFuel"
  by (cases t) auto

lemma bounded_in_buf_step:
  assumes "\<And>b. length (snd (g b)) \<le> length b" and "\<And>x. bounded f (k x)"
  shows "bounded f (\<lambda>s. case g (in_buf s) of (x, b) \<Rightarrow> k x (s\<lparr>in_buf := b\<rparr>))"
proof (rule boundedI)
  fix s r s'
  assume a: "(case g (in_buf s) of (x, b) \<Rightarrow> k x (s\<lparr>in_buf := b\<rparr>)) = (r, s')"
  obtain x b where g: "g (in_buf s) = (x, b)" by (cases "g (in_buf s)")
  with assms(1) [of "in_buf s"] have l: "length b \<le> length (in_buf s)" by simp
  from a g have k: "k x (s\<lparr>in_buf := b\<rparr>) = (r, s')" by simp
  from bounded_length [OF assms(2) k] l show "length (in_buf s') \<le> length (in_buf s)" by simp
  assume "length (in_buf s) < f"
  with l have "length (in_buf (s\<lparr>in_buf := b\<rparr>)) < f" by simp
  with bounded_fuel [OF assms(2) k] show "r \<noteq> NoFuel" .
qed

lemma bounded_parse_wrappers: "bounded f (parse_wrappers sizeof n)"
proof (induction n)
  case 0
  then show ?case by simp
next
  case (Suc n)
  have "bounded f (\<lambda>s. case buffer_read_u8 (in_buf s) of
                 (None, b) \<Rightarrow> (Err [], s\<lparr>in_buf := b\<rparr>)
               | (Some c, b) \<Rightarrow>
                   (case wrapper_type c of
                      None \<Rightarrow> (Err [], s\<lparr>in_buf := b\<rparr>)
                    | Some t \<Rightarrow> (Ok t, s\<lparr>in_buf := b\<rparr>)))"
    by (rule boundedI)
       (auto simp: buffer_read_u8_def split: prod.splits option.splits list.splits)
  with Suc show ?case
    by (auto intro!: bounded_bnd)
qed

lemma bounded_parse_wrapper_prefix: "bounded f (parse_wrapper_prefix sizeof)"
proof (rule boundedI)
  fix s r s'
  assume a: "parse_wrapper_prefix sizeof s = (r, s')"
  have k: "bounded f (bnd (parse_wrappers sizeof n)
             (\<lambda>ts s1. (Ok ts, s1\<lparr>in_buf := buffer_seek_cur (in_buf s1) 1\<rparr>)))" for n
    by (intro bounded_bnd bounded_parse_wrappers boundedI)
       (auto simp: buffer_seek_cur_def)
  from a show "length (in_buf s') \<le> length (in_buf s)"
    using bounded_length [OF k]
    by (auto simp: parse_wrapper_prefix_def split: prod.splits if_splits)
  assume "length (in_buf s) < f"
  with a show "r \<noteq> NoFuel"
    using bounded_fuel [OF k]
    by (auto simp: parse_wrapper_prefix_def split: prod.splits if_splits)
qed

lemma bounded_parse_child_scripts:
  assumes "\<And>d c. bounded f (rec d c)"
  shows "bounded f (parse_child_scripts rec depth n_children child_index)"
proof (induction "nat (n_children - child_index)" arbitrary: child_index)
  case 0
  then show ?case
    by (subst parse_child_scripts.simps) simp
next
  case (Suc k)
  then have "bounded f (parse_child_scripts rec depth n_children (child_index + 1))"
    by (intro Suc.hyps(1)) simp
  then show ?case
    by (subst parse_child_scripts.simps) (auto intro!: bounded_bnd assms)
qed

lemma bounded_parse_constant: "bounded f (parse_constant sizeof token)"
  by (auto simp: parse_constant_def intro!: bounded_bnd)

lemma bounded_parse_sh_wsh:
  assumes "\<And>d c. bounded f (rec d c)"
  shows "bounded f (parse_sh_wsh sizeof rec depth context_flags token)"
  by (auto simp: parse_sh_wsh_def Let_def intro!: bounded_bnd assms)

lemma bounded_parse_hash:
  "bounded f (parse_hash_256 sizeof token)" "bounded f (parse_hash_160 sizeof token)"
  by (auto simp: parse_hash_256_def parse_hash_160_def intro!: bounded_bnd)

lemma bounded_parse_andor:
  assumes "\<And>d c. bounded f (rec d c)"
  shows "bounded f (parse_andor sizeof rec depth token)"
  unfolding parse_andor_def
  by (intro bounded_bnd bounded_alloc_node bounded_parse_child_scripts assms)
     (auto intro!: bounded_bnd bounded_lift simp: andor_flags_no_fuel split: list.splits)

lemma bounded_parse_script2:
  assumes "\<And>d c. bounded f (rec d c)" and "\<And>X Y. rule X Y \<noteq> NoFuel"
  shows "bounded f (parse_script2 sizeof rec depth token rule)"
  unfolding parse_script2_def
  by (intro bounded_bnd bounded_alloc_node bounded_parse_child_scripts assms)
     (auto intro!: bounded_bnd bounded_lift simp: assms(2) split: list.splits)

lemma bounded_parse_key_node: "bounded f (parse_key_node sizeof depth context_flags token)"
  by (auto simp: parse_key_node_def key_node_flags_no_fuel intro!: bounded_bnd bounded_lift)

lemma bounded_parse_tr: "bounded f (parse_tr sizeof depth token)"
  by (auto simp: parse_tr_def intro!: bounded_bnd)

lemma bounded_parse_older_after: "bounded f (parse_older_after sizeof token)"
  by (auto simp: parse_older_after_def intro!: bounded_bnd)


lemma bounded_after_character:
  assumes "bounded g k"
  shows "bounded (Suc g)
           (\<lambda>s. case consume_character (in_buf s) c of
                   (True, b) \<Rightarrow> k (s\<lparr>in_buf := b\<rparr>)
                 | (False, b) \<Rightarrow> (Ok x, s\<lparr>in_buf := b\<rparr>))"
proof (rule boundedI)
  fix s r s'
  assume a: "(case consume_character (in_buf s) c of
                (True, b) \<Rightarrow> k (s\<lparr>in_buf := b\<rparr>)
              | (False, b) \<Rightarrow> (Ok x, s\<lparr>in_buf := b\<rparr>)) = (r, s')"
  obtain t b where c: "consume_character (in_buf s) c = (t, b)"
    by (cases "consume_character (in_buf s) c")
  show "length (in_buf s') \<le> length (in_buf s)"
  proof (cases t)
    case True
    with a c have k: "k (s\<lparr>in_buf := b\<rparr>) = (r, s')" by simp
    from consume_character_True [of "in_buf s" c b] c True
    have "length b < length (in_buf s)" by simp
    with bounded_length [OF assms k] show ?thesis by simp
  next
    case False
    with a c consume_character_length [of "in_buf s" c] show ?thesis by auto
  qed
  assume f: "length (in_buf s) < Suc g"
  show "r \<noteq> NoFuel"
  proof (cases t)
    case True
    with a c have k: "k (s\<lparr>in_buf := b\<rparr>) = (r, s')" by simp
    from consume_character_True [of "in_buf s" c b] c True
    have "length b < length (in_buf s)" by simp
    with f have "length (in_buf (s\<lparr>in_buf := b\<rparr>)) < g" by simp
    with bounded_fuel [OF assms k] show ?thesis .
  next
    case False
    with a c show ?thesis by auto
  qed
qed

lemma bounded_thresh_loop:
  assumes "\<And>d c. bounded f (rec d c)"
  shows "bounded (min f rounds) (thresh_loop sizeof rec depth rounds n count_z count_o)"
proof (induction rounds arbitrary: n count_z count_o)
  case 0
  then show ?case by (simp add: bounded_def)
next
  case (Suc rounds)
  have r: "bounded (min f (Suc rounds)) (rec d c)" for d c
    by (rule bounded_mono [OF assms]) simp
  have l: "bounded (min f (Suc rounds))
             (\<lambda>s. case consume_character (in_buf s) (CHR '','') of
                     (True, b) \<Rightarrow>
                       bnd (alloc_node (sizeof Policy_node_scriptlist_t)) (\<lambda>_.
                       bnd (thresh_loop sizeof rec depth rounds n1 z1 o1)
                         (\<lambda>(scripts, counters). ret (script # scripts, counters)))
                         (s\<lparr>in_buf := b\<rparr>)
                   | (False, b) \<Rightarrow> (Ok ([script], n1, z1, o1), s\<lparr>in_buf := b\<rparr>))"
    for n1 z1 o1 script
  proof -
    have "bounded (min f rounds)
            (bnd (alloc_node (sizeof Policy_node_scriptlist_t)) (\<lambda>_.
             bnd (thresh_loop sizeof rec depth rounds n1 z1 o1)
               (\<lambda>(scripts, counters). ret (script # scripts, counters))))"
      by (intro bounded_bnd bounded_alloc_node Suc.IH) (auto split: prod.splits)
    from bounded_after_character [OF this]
    show ?thesis
      by (rule bounded_mono) simp
  qed
  show ?case
    unfolding thresh_loop.simps Let_def
    by (intro bounded_bnd bounded_align_cur r bounded_lift thresh_child_check_no_fuel)
       (auto split: prod.splits intro: l)
qed

lemma bounded_self_fuel:
  assumes "\<And>g. bounded (min f g) (m g)"
  shows "bounded f (\<lambda>s. m (Suc (length (in_buf s))) s)"
proof (rule boundedI)
  fix s r s'
  assume m: "m (Suc (length (in_buf s))) s = (r, s')"
  from bounded_length [OF assms m] show "length (in_buf s') \<le> length (in_buf s)" .
  assume "length (in_buf s) < f"
  then have "length (in_buf s) < min f (Suc (length (in_buf s)))" by simp
  with bounded_fuel [OF assms m] show "r \<noteq> NoFuel" .
qed

lemma bounded_parse_thresh:
  assumes "\<And>d c. bounded f (rec d c)"
  shows "bounded f (parse_thresh sizeof rec depth token)"
proof -
  have loop: "bounded f (\<lambda>s. thresh_loop sizeof rec depth (Suc (length (in_buf s))) 0 0 0 s)"
    by (rule bounded_self_fuel [where m = "\<lambda>g. thresh_loop sizeof rec depth g 0 0 0"])
       (rule bounded_thresh_loop [OF assms])
  have fin: "bounded f (ret (Node_Thresh token fl k n scripts))" for fl k n scripts
    by simp
  show ?thesis
    unfolding parse_thresh_def
    by (rule bounded_bnd bounded_alloc_node bounded_read_decimal bounded_expect_character
          bounded_require loop | simp add: split_def)+
qed

lemma multi_loop_bounded:
  "multi_loop sz keys s = (r, s') \<Longrightarrow> length (in_buf s') \<le> length (in_buf s) \<and> r \<noteq> NoFuel"
proof (induction sz keys s rule: multi_loop.induct)
  case (1 sz keys s)
  show ?case
  proof (cases "buffer_peek (in_buf s) = Some (CHR '')'')")
    case True
    with "1.prems" show ?thesis
      by (subst (asm) multi_loop.simps) auto
  next
    case False
    obtain t b where c: "consume_character (in_buf s) (CHR '','') = (t, b)"
      by (cases "consume_character (in_buf s) (CHR '','')")
    obtain key_index b1 where k: "parse_key_index b = (key_index, b1)"
      by (cases "parse_key_index b")
    from consume_character_length [of "in_buf s" "CHR '',''"] c
    have lb: "length b \<le> length (in_buf s)" by simp
    from parse_key_index_length [of b] k have lb1: "length b1 \<le> length b" by simp
    show ?thesis
    proof (cases "t \<and> key_index \<noteq> - 1 \<and> buffer_alloc (out_buf s) sz True \<noteq> None")
      case True
      then obtain a where a: "buffer_alloc (out_buf s) sz True = Some a" by auto
      from "1.prems" False c k True a
      have "multi_loop sz (keys @ [key_index]) \<lparr>in_buf = b1, out_buf = a\<rparr> = (r, s')"
        by (subst (asm) multi_loop.simps) auto
      with "1.IH" [OF False c [symmetric] _ k [symmetric] _ a] True
      have "length (in_buf s') \<le> length b1 \<and> r \<noteq> NoFuel" by auto
      with lb lb1 show ?thesis by simp
    next
      case False
      with "1.prems" \<open>buffer_peek (in_buf s) \<noteq> Some (CHR '')'')\<close> c k lb lb1 show ?thesis
        by (subst (asm) multi_loop.simps) (auto split: option.splits bool.splits if_splits)
    qed
  qed
qed

lemma bounded_multi_loop: "bounded f (multi_loop sz keys)"
  by (rule boundedI) (use multi_loop_bounded in blast)+

lemma bounded_parse_multi: "bounded f (parse_multi sizeof context_flags token)"
  by (auto simp: parse_multi_def Let_def intro!: bounded_bnd bounded_multi_loop)

lemma bounded_parse_node:
  assumes "\<And>d c. bounded f (rec d c)"
  shows "bounded f (parse_node sizeof rec depth context_flags token)"
  unfolding parse_node_def
  by (cases token)
     (simp_all add: bounded_parse_constant bounded_parse_sh_wsh bounded_parse_hash
        bounded_parse_andor bounded_parse_script2 bounded_parse_thresh bounded_parse_key_node
        bounded_parse_tr bounded_parse_older_after bounded_parse_multi flags2_no_fuel assms)

lemma bounded_parse_node_constant:
  "token = TOKEN_0 \<or> token = TOKEN_1 \<Longrightarrow>
   bounded f (parse_node sizeof rec depth context_flags token)"
  by (auto simp: parse_node_def bounded_parse_constant)

lemma bounded_end_of_input:
  "bounded f (\<lambda>s1. if depth = 0 \<and> buffer_can_read (in_buf s1) 1
                    then (Err ''Input buffer too long'', s1) else (Ok (), s1))"
  by (rule boundedI) (auto split: if_splits)

lemma bounded_parse_unwrapped:
  assumes "\<And>d c. bounded f (rec d c)"
  shows "bounded (Suc f) (parse_unwrapped sizeof rec depth context_flags)"
  unfolding parse_unwrapped_def
proof (rule bounded_in_buf_step [OF parse_token_length])
  fix token
  have tail: "bounded g
     (bnd (if token \<noteq> TOKEN_0 \<and> token \<noteq> TOKEN_1
           then expect_character (CHR '')'') ''Expected )'' else ret ()) (\<lambda>_.
      bnd (\<lambda>s1. if depth = 0 \<and> buffer_can_read (in_buf s1) 1
                 then (Err ''Input buffer too long'', s1) else (Ok (), s1)) (\<lambda>_.
      ret parsed_node)))" for g and parsed_node :: policy_node
    by (intro bounded_bnd bounded_end_of_input) auto
  show "bounded (Suc f)
          (let has_parentheses = token \<noteq> TOKEN_0 \<and> token \<noteq> TOKEN_1
           in bnd (if has_parentheses then expect_character (CHR ''('') ''Expected (''
                   else ret ()) (\<lambda>_.
              bnd (parse_node sizeof rec depth context_flags token) (\<lambda>parsed_node.
              bnd (if has_parentheses then expect_character (CHR '')'') ''Expected )''
                   else ret ()) (\<lambda>_.
              bnd (\<lambda>s1. if depth = 0 \<and> buffer_can_read (in_buf s1) 1
                         then (Err ''Input buffer too long'', s1) else (Ok (), s1)) (\<lambda>_.
              ret parsed_node)))))"
  proof (cases "token \<noteq> TOKEN_0 \<and> token \<noteq> TOKEN_1")
    case True
    have "bounded (Suc f)
            (bnd (expect_character (CHR ''('') ''Expected ('') (\<lambda>_.
             bnd (parse_node sizeof rec depth context_flags token) (\<lambda>parsed_node.
             bnd (if token \<noteq> TOKEN_0 \<and> token \<noteq> TOKEN_1
                  then expect_character (CHR '')'') ''Expected )'' else ret ()) (\<lambda>_.
             bnd (\<lambda>s1. if depth = 0 \<and> buffer_can_read (in_buf s1) 1
                        then (Err ''Input buffer too long'', s1) else (Ok (), s1)) (\<lambda>_.
             ret parsed_node)))))"
      by (intro bounded_bnd_strict bounded_expect_character consuming_expect_character
            bounded_bnd bounded_parse_node assms tail)
    with True show ?thesis by (simp add: Let_def)
  next
    case False
    then have t: "token = TOKEN_0 \<or> token = TOKEN_1" by auto
    have "bounded (Suc f)
            (bnd (ret ()) (\<lambda>_.
             bnd (parse_node sizeof rec depth context_flags token) (\<lambda>parsed_node.
             bnd (if token \<noteq> TOKEN_0 \<and> token \<noteq> TOKEN_1
                  then expect_character (CHR '')'') ''Expected )'' else ret ()) (\<lambda>_.
             bnd (\<lambda>s1. if depth = 0 \<and> buffer_can_read (in_buf s1) 1
                        then (Err ''Input buffer too long'', s1) else (Ok (), s1)) (\<lambda>_.
             ret parsed_node)))))"
      by (intro bounded_bnd bounded_ret bounded_parse_node_constant [OF t] tail)
    with False show ?thesis by (auto simp: Let_def)
  qed
qed

lemma bounded_parse_script_body:
  assumes "\<And>d c. bounded f (rec d c)"
  shows "bounded (Suc f) (parse_script_body sizeof rec depth context_flags)"
  unfolding parse_script_body_def
  by (intro bounded_bnd bounded_parse_wrapper_prefix bounded_parse_unwrapped assms
        bounded_lift apply_wrappers_no_fuel)

lemma bounded_parse_script: "bounded fuel (parse_script sizeof fuel depth context_flags)"
proof (induction fuel arbitrary: depth context_flags)
  case 0
  then show ?case by (simp add: bounded_def)
next
  case (Suc fuel)
  then show ?case
    by (simp add: bounded_parse_script_body)
qed

theorem parse_script_returns:
  "length (in_buf s) < fuel \<Longrightarrow> fst (parse_script sizeof fuel depth context_flags s) \<noteq> NoFuel"
  using bounded_fuel [OF bounded_parse_script, of sizeof fuel depth context_flags s]
  by (cases "parse_script sizeof fuel depth context_flags s") auto

theorem parse_policy_map_returns:
  "fst (parse_policy_map sizeof buffer out out_len) \<noteq> NoFuel"
  using parse_script_returns [of "\<lparr>in_buf = buffer, out_buf = buffer_create out out_len\<rparr>"
          "Suc (length buffer)" sizeof 0 0]
  by (auto simp: parse_policy_map_def split: prod.splits)


subsection \<open>Further facts about the same fragments\<close>

text \<open>
  Unsigned decimals: a leading zero and a missing digit are errors, the single digit 0 is
  read, and the overflow test catches the first value above \<open>2^32 - 1\<close>.
\<close>

lemma parse_unsigned_decimal_boundaries:
  "fst (parse_unsigned_decimal ''01'') = Err []"
  "fst (parse_unsigned_decimal []) = Err []"
  "fst (parse_unsigned_decimal ''x'') = Err []"
  "parse_unsigned_decimal ''0'' = (Ok 0, [])"
  "fst (parse_unsigned_decimal ''4294967296'') = Err []"
  "parse_unsigned_decimal ''4294967295'' = (Ok 4294967295, [])"
  by (simp_all add: parse_unsigned_decimal_def is_digit_def)

lemma one_le_word: "1 \<le> x \<longleftrightarrow> x \<noteq> 0" for x :: "32 word"
  using word_less_1 [of x] by (auto simp: not_less [symmetric])

text \<open>The threshold of an accepted \<^verbatim>\<open>thresh\<close> is at least 1.\<close>

lemma parse_thresh_k:
  assumes "parse_thresh sizeof rec depth token s = (Ok node, s')"
  shows "\<exists>fl k n scripts. node = Node_Thresh token fl k n scripts \<and> 1 \<le> k"
  using assms
  by (auto simp: parse_thresh_def bnd_def ret_def require_def fail_def one_le_word not_le
           split: prod.splits res.splits if_splits)

text \<open>\<open>tr(@0)\<close> at depth 0 is accepted, and its node is not miniscript.\<close>

lemma tr_top_level:
  assumes "out mod 4 = 0" and "sizeof Policy_node_with_key_t + 3 \<le> out_len"
  shows "fst (parse_policy_map sizeof ''tr(@0)'' out out_len) =
           Ok (Node_With_Key TOKEN_TR Not_Miniscript 0)"
  using assms by (simp add: parser_eval lex_eval arena_eval)

text \<open>
  The boundaries \<open>older(0)\<close>, \<open>older(1)\<close> and \<open>older(2147483648)\<close>, and the flags and
  the range of \<open>n\<close> in every node that the case of \<^verbatim>\<open>older\<close> and \<^verbatim>\<open>after\<close> returns.
\<close>

lemma older_boundaries:
  "is_Err (fst (parse_policy_map sizeof ''older(0)'' out out_len))"
  "is_Err (fst (parse_policy_map sizeof ''older(2147483648)'' out out_len))"
  "out mod 4 = 0 \<Longrightarrow> sizeof Policy_node_with_uint32_t + 3 \<le> out_len \<Longrightarrow>
   fst (parse_policy_map sizeof ''older(1)'' out out_len) =
     Ok (Node_With_Uint32 TOKEN_OLDER
           (Miniscript MINISCRIPT_TYPE_B True False False False False) 1)"
    apply (simp add: parser_eval lex_eval split: option.splits)
   apply (simp add: parser_eval lex_eval split: option.splits)
  apply (simp add: parser_eval lex_eval arena_eval word_le_nat_alt)
  done

lemma parse_older_after_node:
  assumes "parse_older_after sizeof token s = (Ok node, s')"
  shows "\<exists>n. node = Node_With_Uint32 token
                       (Miniscript MINISCRIPT_TYPE_B True False False False False) n \<and>
             1 \<le> n \<and> n < 2 ^ 31"
  using assms
  by (auto simp: parse_older_after_def bnd_def ret_def require_def fail_def one_le_word not_le
           split: prod.splits res.splits if_splits)

text \<open>
  An origin of ten derivation steps is rejected, when the store of the ninth step past the
  end of the array leaves the count of the steps as it is.
\<close>

lemma key_origin_rejects_ten_steps:
  assumes "master_key_derivation_len (store_past_end 8 5 eight_steps_read) = 8"
  shows "fst (parse_policy_map_key_info store_past_end m
                (''[deadbeef/44'/0'/0'/0/1/2/3/4/5/6]'' @ rest)) = - 1"
  using assms
  by (simp add: parse_policy_map_key_info_def parse_key_origin_def key_info_zero_def lex_eval
        read_derivation_steps.simps [of _ "_ # _"]
        buffer_read_derivation_step_def MAX_BIP32_PATH_STEPS_def store_derivation_step_def
        eight_steps_read_def Let_def)
     (simp add: BIP32_FIRST_HARDENED_CHILD_def nat_eval)

end
